theory Spec2Isabelle
  imports Complex_Main "HOL-Library.Monad_Syntax"
begin

section \<open>JavaScript numbers\<close>

text \<open>
  The physics engine of \<^verbatim>\<open>server.js\<close> computes with JavaScript numbers. The model
  takes a number to be an exact real or \<^verbatim>\<open>NaN\<close>: rounding errors and overflow of IEEE
  doubles are outside the model, except in the section on collisions in double arithmetic,
  which writes the rounding of each operation out. \<^verbatim>\<open>NaN\<close> is kept because reading a property that an
  object does not have gives \<^verbatim>\<open>undefined\<close>, and arithmetic on \<^verbatim>\<open>undefined\<close> gives
  \<^verbatim>\<open>NaN\<close>; every comparison with \<^verbatim>\<open>NaN\<close> is false. A division with divisor zero has
  no finite value (JavaScript gives an infinity or \<^verbatim>\<open>NaN\<close>); the model gives \<^verbatim>\<open>NaN\<close>
  for it, and the checked operations of the section on divisions tell the two apart.
\<close>

datatype jsnum = Num real | NaN

instantiation jsnum :: "{plus, minus, uminus, times, inverse, ord}"
begin

definition plus_jsnum :: "jsnum \<Rightarrow> jsnum \<Rightarrow> jsnum" where
  "plus_jsnum a b =
     (case a of NaN \<Rightarrow> NaN | Num x \<Rightarrow> (case b of NaN \<Rightarrow> NaN | Num y \<Rightarrow> Num (x + y)))"

definition minus_jsnum :: "jsnum \<Rightarrow> jsnum \<Rightarrow> jsnum" where
  "minus_jsnum a b =
     (case a of NaN \<Rightarrow> NaN | Num x \<Rightarrow> (case b of NaN \<Rightarrow> NaN | Num y \<Rightarrow> Num (x - y)))"

definition uminus_jsnum :: "jsnum \<Rightarrow> jsnum" where
  "uminus_jsnum a = (case a of NaN \<Rightarrow> NaN | Num x \<Rightarrow> Num (- x))"

definition times_jsnum :: "jsnum \<Rightarrow> jsnum \<Rightarrow> jsnum" where
  "times_jsnum a b =
     (case a of NaN \<Rightarrow> NaN | Num x \<Rightarrow> (case b of NaN \<Rightarrow> NaN | Num y \<Rightarrow> Num (x * y)))"

definition divide_jsnum :: "jsnum \<Rightarrow> jsnum \<Rightarrow> jsnum" where
  "divide_jsnum a b =
     (case a of NaN \<Rightarrow> NaN
      | Num x \<Rightarrow> (case b of NaN \<Rightarrow> NaN | Num y \<Rightarrow> if y = 0 then NaN else Num (x / y)))"

definition inverse_jsnum :: "jsnum \<Rightarrow> jsnum" where
  "inverse_jsnum a = (case a of NaN \<Rightarrow> NaN | Num x \<Rightarrow> if x = 0 then NaN else Num (inverse x))"

definition less_eq_jsnum :: "jsnum \<Rightarrow> jsnum \<Rightarrow> bool" where
  "less_eq_jsnum a b =
     (case a of NaN \<Rightarrow> False | Num x \<Rightarrow> (case b of NaN \<Rightarrow> False | Num y \<Rightarrow> x \<le> y))"

definition less_jsnum :: "jsnum \<Rightarrow> jsnum \<Rightarrow> bool" where
  "less_jsnum a b =
     (case a of NaN \<Rightarrow> False | Num x \<Rightarrow> (case b of NaN \<Rightarrow> False | Num y \<Rightarrow> x < y))"

instance ..

end

text \<open>\<^verbatim>\<open>a ** n\<close> for a literal exponent \<open>n\<close>; \<^verbatim>\<open>NaN ** 0\<close> is 1 in JavaScript.\<close>

definition js_pow :: "jsnum \<Rightarrow> nat \<Rightarrow> jsnum" where
  "js_pow a n = (case a of NaN \<Rightarrow> (if n = 0 then Num 1 else NaN) | Num x \<Rightarrow> Num (x ^ n))"

definition Math_sqrt :: "jsnum \<Rightarrow> jsnum" where
  "Math_sqrt a = (case a of NaN \<Rightarrow> NaN | Num x \<Rightarrow> if x < 0 then NaN else Num (sqrt x))"

definition Math_cos :: "jsnum \<Rightarrow> jsnum" where
  "Math_cos a = (case a of NaN \<Rightarrow> NaN | Num x \<Rightarrow> Num (cos x))"

definition Math_sin :: "jsnum \<Rightarrow> jsnum" where
  "Math_sin a = (case a of NaN \<Rightarrow> NaN | Num x \<Rightarrow> Num (sin x))"

definition Math_abs :: "jsnum \<Rightarrow> jsnum" where
  "Math_abs a = (case a of NaN \<Rightarrow> NaN | Num x \<Rightarrow> Num \<bar>x\<bar>)"

definition Math_PI :: jsnum where
  "Math_PI = Num pi"

text \<open>The angle of the point \<open>(x, y)\<close>, as \<^verbatim>\<open>Math.atan2(y, x)\<close> gives it for finite arguments.\<close>

definition atan2 :: "real \<Rightarrow> real \<Rightarrow> real" where
  "atan2 y x =
     (if 0 < x then arctan (y / x)
      else if x < 0 then (if 0 \<le> y then arctan (y / x) + pi else arctan (y / x) - pi)
      else if 0 < y then pi / 2
      else if y < 0 then - pi / 2
      else 0)"

definition Math_atan2 :: "jsnum \<Rightarrow> jsnum \<Rightarrow> jsnum" where
  "Math_atan2 a b =
     (case a of NaN \<Rightarrow> NaN | Num y \<Rightarrow> (case b of NaN \<Rightarrow> NaN | Num x \<Rightarrow> Num (atan2 y x)))"

text \<open>
  \<^verbatim>\<open>parseFloat(v.toFixed(d))\<close>: \<^verbatim>\<open>toFixed\<close> prints the multiple of \<open>10\<^sup>-\<^sup>d\<close> nearest to
  \<open>v\<close>, the one of larger magnitude at a tie; from \<open>10\<^sup>2\<^sup>1\<close> on it prints the number
  itself, and \<^verbatim>\<open>NaN\<close> prints as \<^verbatim>\<open>NaN\<close>. \<^verbatim>\<open>parseFloat\<close> reads the number back.
\<close>

definition round_half_away :: "real \<Rightarrow> nat \<Rightarrow> real" where
  "round_half_away v d = sgn v * of_int \<lfloor>\<bar>v\<bar> * 10 ^ d + 1 / 2\<rfloor> / 10 ^ d"

definition parseFloat_toFixed :: "jsnum \<Rightarrow> nat \<Rightarrow> jsnum" where
  "parseFloat_toFixed a d =
     (case a of NaN \<Rightarrow> NaN
      | Num v \<Rightarrow> if 10 ^ 21 \<le> \<bar>v\<bar> then Num v else Num (round_half_away v d))"

text \<open>\<^verbatim>\<open>a || 0\<close> on a number: zero and \<^verbatim>\<open>NaN\<close> are falsy.\<close>

definition or_zero :: "jsnum \<Rightarrow> jsnum" where
  "or_zero a = (case a of NaN \<Rightarrow> Num 0 | Num x \<Rightarrow> Num x)"

record 'a vector2 =
  vec_x :: 'a
  vec_y :: 'a


section \<open>Collisions\<close>

text \<open>
  The two arguments of \<^verbatim>\<open>calculateCollision\<close> are objects that may carry any of the five
  properties; a property that is absent is \<open>None\<close>.
\<close>

record collision_obj =
  co_mass1 :: "real option"
  co_velocity1 :: "real vector2 option"
  co_mass2 :: "real option"
  co_velocity2 :: "real vector2 option"
  co_restitution :: "real option"

text \<open>\<^verbatim>\<open>{ ...obj1, ...obj2 }\<close>: the properties of \<open>obj2\<close> are copied over those of \<open>obj1\<close>.\<close>

definition over :: "'a option \<Rightarrow> 'a option \<Rightarrow> 'a option" where
  "over a b = (case b of Some v \<Rightarrow> Some v | None \<Rightarrow> a)"

definition spread :: "collision_obj \<Rightarrow> collision_obj \<Rightarrow> collision_obj" where
  "spread obj1 obj2 =
     \<lparr> co_mass1 = over (co_mass1 obj1) (co_mass1 obj2),
       co_velocity1 = over (co_velocity1 obj1) (co_velocity1 obj2),
       co_mass2 = over (co_mass2 obj1) (co_mass2 obj2),
       co_velocity2 = over (co_velocity2 obj1) (co_velocity2 obj2),
       co_restitution = over (co_restitution obj1) (co_restitution obj2) \<rparr>"

text \<open>A destructuring default: \<^verbatim>\<open>{ name = d } = obj\<close>.\<close>

definition default_to :: "'a \<Rightarrow> 'a option \<Rightarrow> 'a" where
  "default_to d a = (case a of Some v \<Rightarrow> v | None \<Rightarrow> d)"

definition num_vec :: "real vector2 \<Rightarrow> jsnum vector2" where
  "num_vec v = \<lparr> vec_x = Num (vec_x v), vec_y = Num (vec_y v) \<rparr>"

record collision_result =
  object1FinalVelocity :: "jsnum vector2"
  object2FinalVelocity :: "jsnum vector2"
  energyLoss :: jsnum
  impactForce :: jsnum

definition relativeVelocity :: "jsnum vector2 \<Rightarrow> jsnum vector2 \<Rightarrow> jsnum vector2" where
  "relativeVelocity velocity1 velocity2 =
     \<lparr> vec_x = vec_x velocity1 - vec_x velocity2,
       vec_y = vec_y velocity1 - vec_y velocity2 \<rparr>"

definition v1Final :: "jsnum \<Rightarrow> jsnum vector2 \<Rightarrow> jsnum \<Rightarrow> jsnum vector2 \<Rightarrow> jsnum \<Rightarrow> jsnum vector2" where
  "v1Final mass1 velocity1 mass2 velocity2 restitution =
     (let totalMass = mass1 + mass2;
          rel = relativeVelocity velocity1 velocity2
      in \<lparr> vec_x = vec_x velocity1 - (Num 2 * mass2 / totalMass) * vec_x rel * restitution,
           vec_y = vec_y velocity1 - (Num 2 * mass2 / totalMass) * vec_y rel * restitution \<rparr>)"

definition v2Final :: "jsnum \<Rightarrow> jsnum vector2 \<Rightarrow> jsnum \<Rightarrow> jsnum vector2 \<Rightarrow> jsnum \<Rightarrow> jsnum vector2" where
  "v2Final mass1 velocity1 mass2 velocity2 restitution =
     (let totalMass = mass1 + mass2;
          rel = relativeVelocity velocity1 velocity2
      in \<lparr> vec_x = vec_x velocity2 + (Num 2 * mass1 / totalMass) * vec_x rel * restitution,
           vec_y = vec_y velocity2 + (Num 2 * mass1 / totalMass) * vec_y rel * restitution \<rparr>)"

definition kineticEnergy2 :: "jsnum \<Rightarrow> jsnum vector2 \<Rightarrow> jsnum \<Rightarrow> jsnum vector2 \<Rightarrow> jsnum" where
  "kineticEnergy2 mass1 u1 mass2 u2 =
     Num 0.5 * mass1 * (js_pow (vec_x u1) 2 + js_pow (vec_y u1) 2) +
     Num 0.5 * mass2 * (js_pow (vec_x u2) 2 + js_pow (vec_y u2) 2)"

definition collide :: "jsnum \<Rightarrow> jsnum vector2 \<Rightarrow> jsnum \<Rightarrow> jsnum vector2 \<Rightarrow> jsnum \<Rightarrow> collision_result" where
  "collide mass1 velocity1 mass2 velocity2 restitution =
     (let rel = relativeVelocity velocity1 velocity2;
          v1 = v1Final mass1 velocity1 mass2 velocity2 restitution;
          v2 = v2Final mass1 velocity1 mass2 velocity2 restitution;
          initialKE = kineticEnergy2 mass1 velocity1 mass2 velocity2;
          finalKE = kineticEnergy2 mass1 v1 mass2 v2
      in \<lparr> object1FinalVelocity =
             \<lparr> vec_x = parseFloat_toFixed (vec_x v1) 3, vec_y = parseFloat_toFixed (vec_y v1) 3 \<rparr>,
           object2FinalVelocity =
             \<lparr> vec_x = parseFloat_toFixed (vec_x v2) 3, vec_y = parseFloat_toFixed (vec_y v2) 3 \<rparr>,
           energyLoss = parseFloat_toFixed (initialKE - finalKE) 3,
           impactForce =
             parseFloat_toFixed
               (mass1 * Math_sqrt (js_pow (vec_x rel) 2 + js_pow (vec_y rel) 2) / Num 0.01) 3 \<rparr>)"

text \<open>The destructuring of the merged object, with the defaults of the source.\<close>

definition mass1_of :: "collision_obj \<Rightarrow> real" where
  "mass1_of merged = default_to 1 (co_mass1 merged)"

definition velocity1_of :: "collision_obj \<Rightarrow> real vector2" where
  "velocity1_of merged = default_to \<lparr> vec_x = 10, vec_y = 0 \<rparr> (co_velocity1 merged)"

definition mass2_of :: "collision_obj \<Rightarrow> real" where
  "mass2_of merged = default_to 1 (co_mass2 merged)"

definition velocity2_of :: "collision_obj \<Rightarrow> real vector2" where
  "velocity2_of merged = default_to \<lparr> vec_x = - 5, vec_y = 0 \<rparr> (co_velocity2 merged)"

definition restitution_of :: "collision_obj \<Rightarrow> real" where
  "restitution_of merged = default_to 0.8 (co_restitution merged)"

definition calculateCollision :: "collision_obj \<Rightarrow> collision_obj \<Rightarrow> collision_result" where
  "calculateCollision obj1 obj2 =
     (let merged = spread obj1 obj2
      in collide (Num (mass1_of merged)) (num_vec (velocity1_of merged))
           (Num (mass2_of merged)) (num_vec (velocity2_of merged))
           (Num (restitution_of merged)))"


section \<open>Collisions in double arithmetic\<close>

text \<open>
  The numbers of JavaScript are IEEE 754 doubles, and each arithmetic operation returns the
  double nearest to the exact result, the one with the even mantissa at a tie. Doubles have
  a mantissa of 53 bits: the last bit of a double of magnitude from \<open>2\<^sup>k\<close> up to
  \<open>2\<^sup>k\<^sup>+\<^sup>1\<close> is worth \<open>2\<^sup>k\<^sup>-\<^sup>5\<^sup>2\<close>, and \<open>2\<^sup>-\<^sup>1\<^sup>0\<^sup>7\<^sup>4\<close> below the normal range.
  \<open>fl\<close> rounds the exact result of one operation; where the nearest double is not finite (JavaScript gives an infinity) it gives
  \<^verbatim>\<open>NaN\<close>, so that, as in the model on reals, a value that is not finite is not followed
  further.
\<close>

definition round_ties_even :: "real \<Rightarrow> int" where
  "round_ties_even x =
     (let n = \<lfloor>x\<rfloor>; f = x - of_int n
      in if f < 1 / 2 then n else if 1 / 2 < f then n + 1 else if even n then n else n + 1)"

definition ulp_exponent :: "real \<Rightarrow> int" where
  "ulp_exponent x = max (- 1074) (\<lfloor>log 2 \<bar>x\<bar>\<rfloor> - 52)"

definition nearest_double :: "real \<Rightarrow> real" where
  "nearest_double x = of_int (round_ties_even (x / 2 powi ulp_exponent x)) * 2 powi ulp_exponent x"

definition fl :: "jsnum \<Rightarrow> jsnum" where
  "fl a =
     (case a of NaN \<Rightarrow> NaN
      | Num x \<Rightarrow> if \<bar>nearest_double x\<bar> < 2 ^ 1024 then Num (nearest_double x) else NaN)"

text \<open>
  The error of one rounding is at most \<open>2\<^sup>-\<^sup>5\<^sup>3\<close> of the exact result where that is
  in the normal range, and at most \<open>2\<^sup>-\<^sup>1\<^sup>0\<^sup>7\<^sup>5\<close> below it.
\<close>

definition unit_roundoff :: real where
  "unit_roundoff = 1 / 2 ^ 53"

definition tiny :: real where
  "tiny = 1 / 2 ^ 1075"

text \<open>
  \<^verbatim>\<open>parseFloat(v.toFixed(d))\<close> on a double: \<^verbatim>\<open>toFixed\<close> prints the decimal rounding of the
  exact value of \<open>v\<close>, and \<^verbatim>\<open>parseFloat\<close> reads the double nearest to what is printed.
\<close>

definition parseFloat_toFixed_double :: "jsnum \<Rightarrow> nat \<Rightarrow> jsnum" where
  "parseFloat_toFixed_double a d = fl (parseFloat_toFixed a d)"

text \<open>A number of the request is read as the nearest double.\<close>

definition double_vec :: "real vector2 \<Rightarrow> jsnum vector2" where
  "double_vec v = \<lparr> vec_x = fl (Num (vec_x v)), vec_y = fl (Num (vec_y v)) \<rparr>"

text \<open>
  The collision of the source again, with the rounding of each operation written out, in
  the order in which JavaScript evaluates the expressions. \<^verbatim>\<open>x ** 2\<close> is taken to be the
  double nearest to the square of \<open>x\<close>.
\<close>

definition relativeVelocity_double :: "jsnum vector2 \<Rightarrow> jsnum vector2 \<Rightarrow> jsnum vector2" where
  "relativeVelocity_double velocity1 velocity2 =
     \<lparr> vec_x = fl (vec_x velocity1 - vec_x velocity2),
       vec_y = fl (vec_y velocity1 - vec_y velocity2) \<rparr>"

definition v1Final_double ::
  "jsnum \<Rightarrow> jsnum vector2 \<Rightarrow> jsnum \<Rightarrow> jsnum vector2 \<Rightarrow> jsnum \<Rightarrow> jsnum vector2" where
  "v1Final_double mass1 velocity1 mass2 velocity2 restitution =
     (let totalMass = fl (mass1 + mass2);
          rel = relativeVelocity_double velocity1 velocity2
      in \<lparr> vec_x = fl (vec_x velocity1
                         - fl (fl (fl (fl (Num 2 * mass2) / totalMass) * vec_x rel) * restitution)),
           vec_y = fl (vec_y velocity1
                         - fl (fl (fl (fl (Num 2 * mass2) / totalMass) * vec_y rel) * restitution)) \<rparr>)"

definition v2Final_double ::
  "jsnum \<Rightarrow> jsnum vector2 \<Rightarrow> jsnum \<Rightarrow> jsnum vector2 \<Rightarrow> jsnum \<Rightarrow> jsnum vector2" where
  "v2Final_double mass1 velocity1 mass2 velocity2 restitution =
     (let totalMass = fl (mass1 + mass2);
          rel = relativeVelocity_double velocity1 velocity2
      in \<lparr> vec_x = fl (vec_x velocity2
                         + fl (fl (fl (fl (Num 2 * mass1) / totalMass) * vec_x rel) * restitution)),
           vec_y = fl (vec_y velocity2
                         + fl (fl (fl (fl (Num 2 * mass1) / totalMass) * vec_y rel) * restitution)) \<rparr>)"

definition kineticEnergy2_double :: "jsnum \<Rightarrow> jsnum vector2 \<Rightarrow> jsnum \<Rightarrow> jsnum vector2 \<Rightarrow> jsnum" where
  "kineticEnergy2_double mass1 u1 mass2 u2 =
     fl (fl (fl (Num 0.5 * mass1) * fl (fl (js_pow (vec_x u1) 2) + fl (js_pow (vec_y u1) 2))) +
         fl (fl (Num 0.5 * mass2) * fl (fl (js_pow (vec_x u2) 2) + fl (js_pow (vec_y u2) 2))))"

definition collide_double ::
  "jsnum \<Rightarrow> jsnum vector2 \<Rightarrow> jsnum \<Rightarrow> jsnum vector2 \<Rightarrow> jsnum \<Rightarrow> collision_result" where
  "collide_double mass1 velocity1 mass2 velocity2 restitution =
     (let rel = relativeVelocity_double velocity1 velocity2;
          v1 = v1Final_double mass1 velocity1 mass2 velocity2 restitution;
          v2 = v2Final_double mass1 velocity1 mass2 velocity2 restitution;
          initialKE = kineticEnergy2_double mass1 velocity1 mass2 velocity2;
          finalKE = kineticEnergy2_double mass1 v1 mass2 v2
      in \<lparr> object1FinalVelocity =
             \<lparr> vec_x = parseFloat_toFixed_double (vec_x v1) 3,
               vec_y = parseFloat_toFixed_double (vec_y v1) 3 \<rparr>,
           object2FinalVelocity =
             \<lparr> vec_x = parseFloat_toFixed_double (vec_x v2) 3,
               vec_y = parseFloat_toFixed_double (vec_y v2) 3 \<rparr>,
           energyLoss = parseFloat_toFixed_double (fl (initialKE - finalKE)) 3,
           impactForce =
             parseFloat_toFixed_double
               (fl (fl (mass1 * fl (Math_sqrt (fl (fl (js_pow (vec_x rel) 2) + fl (js_pow (vec_y rel) 2)))))
                    / fl (Num 0.01))) 3 \<rparr>)"

definition calculateCollision_double :: "collision_obj \<Rightarrow> collision_obj \<Rightarrow> collision_result" where
  "calculateCollision_double obj1 obj2 =
     (let merged = spread obj1 obj2
      in collide_double (fl (Num (mass1_of merged))) (double_vec (velocity1_of merged))
           (fl (Num (mass2_of merged))) (double_vec (velocity2_of merged))
           (fl (Num (restitution_of merged))))"


section \<open>Materials\<close>

definition GRAVITY :: real where
  "GRAVITY = 9.81"

definition AIR_DENSITY :: real where
  "AIR_DENSITY = 1.225"

record material =
  mass :: real
  radius :: real
  dragCoeff :: real
  bounciness :: real

definition MATERIALS_custom :: material where
  "MATERIALS_custom = \<lparr> mass = 1, radius = 0.05, dragCoeff = 0.47, bounciness = 0.6 \<rparr>"

definition MATERIALS :: "(string \<times> material) list" where
  "MATERIALS =
     [ (''basketball'', \<lparr> mass = 0.624, radius = 0.1194, dragCoeff = 0.47, bounciness = 0.85 \<rparr>),
       (''soccer'', \<lparr> mass = 0.43, radius = 0.11, dragCoeff = 0.25, bounciness = 0.75 \<rparr>),
       (''tennis'', \<lparr> mass = 0.057, radius = 0.0335, dragCoeff = 0.51, bounciness = 0.73 \<rparr>),
       (''baseball'', \<lparr> mass = 0.145, radius = 0.037, dragCoeff = 0.3, bounciness = 0.55 \<rparr>),
       (''golf'', \<lparr> mass = 0.046, radius = 0.021, dragCoeff = 0.24, bounciness = 0.78 \<rparr>),
       (''bowling'', \<lparr> mass = 7.26, radius = 0.108, dragCoeff = 0.15, bounciness = 0.15 \<rparr>),
       (''rock'', \<lparr> mass = 0.5, radius = 0.05, dragCoeff = 0.47, bounciness = 0.2 \<rparr>),
       (''paper_airplane'', \<lparr> mass = 0.003, radius = 0.1, dragCoeff = 0.02, bounciness = 0.1 \<rparr>),
       (''custom'', MATERIALS_custom) ]"

text \<open>
  \<^verbatim>\<open>MATERIALS\<close> and \<^verbatim>\<open>surfaceFactors\<close> are object literals, so their prototype is
  \<^verbatim>\<open>Object.prototype\<close>, and \<^verbatim>\<open>MATERIALS[name]\<close> reads an inherited property when the
  object has no own property of that name. These are the property names of
  \<^verbatim>\<open>Object.prototype\<close>; each of them holds a function or an object, which is truthy and
  has none of the properties \<^verbatim>\<open>mass\<close>, \<^verbatim>\<open>radius\<close>, \<^verbatim>\<open>dragCoeff\<close>, \<^verbatim>\<open>bounciness\<close>.
\<close>

definition Object_prototype :: "string list" where
  "Object_prototype =
     [ ''constructor'', ''__defineGetter__'', ''__defineSetter__'', ''hasOwnProperty'',
       ''__lookupGetter__'', ''__lookupSetter__'', ''isPrototypeOf'', ''propertyIsEnumerable'',
       ''toString'', ''valueOf'', ''__proto__'', ''toLocaleString'' ]"

datatype jsobj = Props material | Inherited string

text \<open>\<^verbatim>\<open>MATERIALS[name]\<close>; \<open>None\<close> is \<^verbatim>\<open>undefined\<close>.\<close>

definition MATERIALS_get :: "string \<Rightarrow> jsobj option" where
  "MATERIALS_get name =
     (case map_of MATERIALS name of
        Some m \<Rightarrow> Some (Props m)
      | None \<Rightarrow> if name \<in> set Object_prototype then Some (Inherited name) else None)"

text \<open>\<^verbatim>\<open>MATERIALS[material] || MATERIALS.custom\<close>: every object is truthy.\<close>

definition lookupMaterial :: "string \<Rightarrow> jsobj" where
  "lookupMaterial name =
     (case MATERIALS_get name of Some obj \<Rightarrow> obj | None \<Rightarrow> Props MATERIALS_custom)"

text \<open>\<^verbatim>\<open>obj.mass\<close> and the like, as they enter arithmetic: \<^verbatim>\<open>undefined\<close> becomes \<^verbatim>\<open>NaN\<close>.\<close>

definition prop_mass :: "jsobj \<Rightarrow> jsnum" where
  "prop_mass obj = (case obj of Props m \<Rightarrow> Num (mass m) | Inherited _ \<Rightarrow> NaN)"

definition prop_radius :: "jsobj \<Rightarrow> jsnum" where
  "prop_radius obj = (case obj of Props m \<Rightarrow> Num (radius m) | Inherited _ \<Rightarrow> NaN)"

definition prop_dragCoeff :: "jsobj \<Rightarrow> jsnum" where
  "prop_dragCoeff obj = (case obj of Props m \<Rightarrow> Num (dragCoeff m) | Inherited _ \<Rightarrow> NaN)"

definition prop_bounciness :: "jsobj \<Rightarrow> jsnum" where
  "prop_bounciness obj = (case obj of Props m \<Rightarrow> Num (bounciness m) | Inherited _ \<Rightarrow> NaN)"


section \<open>Trajectories\<close>

record trajectory_params =
  tp_initialHeight :: "real option"
  tp_initialVelocity :: "real option"
  tp_launchAngle :: "real option"
  tp_material :: "string option"
  tp_windSpeed :: "real option"
  tp_windDirection :: "real option"
  tp_airDensity :: "real option"
  tp_gravity :: "real option"

record trajectory_point =
  pt_time :: jsnum
  pt_x :: jsnum
  pt_y :: jsnum
  pt_vx :: jsnum
  pt_vy :: jsnum
  pt_speed :: jsnum

definition dt :: real where
  "dt = 0.01"

text \<open>
  One pass through the body of the loop, up to the update of the position: from
  \<open>(x, y, vx, vy)\<close> to their new values.
\<close>

definition step ::
  "jsobj \<Rightarrow> jsnum \<Rightarrow> jsnum \<Rightarrow> jsnum \<Rightarrow> jsnum \<Rightarrow> jsnum \<times> jsnum \<times> jsnum \<times> jsnum
     \<Rightarrow> jsnum \<times> jsnum \<times> jsnum \<times> jsnum" where
  "step obj airDensity gravity windX windY s =
     (case s of (x, y, vx, vy) \<Rightarrow>
        let vRelX = vx - windX;
            vRelY = vy - windY;
            vRel = Math_sqrt (vRelX * vRelX + vRelY * vRelY);
            crossSectionalArea = Math_PI * prop_radius obj * prop_radius obj;
            dragMagnitude =
              Num 0.5 * prop_dragCoeff obj * airDensity * crossSectionalArea * vRel * vRel;
            dragX = (if Num 0 < vRel
                     then ((- dragMagnitude) * (vRelX / vRel)) / prop_mass obj else Num 0);
            dragY = (if Num 0 < vRel
                     then ((- dragMagnitude) * (vRelY / vRel)) / prop_mass obj else Num 0);
            vx' = vx + dragX * Num dt;
            vy' = vy + (- gravity + dragY) * Num dt;
            x' = x + vx' * Num dt;
            y' = y + vy' * Num dt
        in (x', y', vx', vy'))"

definition point_at :: "real \<Rightarrow> jsnum \<times> jsnum \<times> jsnum \<times> jsnum \<Rightarrow> trajectory_point" where
  "point_at t s =
     (case s of (x, y, vx, vy) \<Rightarrow>
        \<lparr> pt_time = parseFloat_toFixed (Num t) 3,
          pt_x = parseFloat_toFixed x 3,
          pt_y = parseFloat_toFixed y 3,
          pt_vx = parseFloat_toFixed vx 3,
          pt_vy = parseFloat_toFixed vy 3,
          pt_speed = parseFloat_toFixed (Math_sqrt (vx * vx + vy * vy)) 3 \<rparr>)"

text \<open>
  The loop \<^verbatim>\<open>while (y >= 0) { ...; t += dt; if (t > 300) break; }\<close>. The variable \<open>t\<close>
  starts at 0 and only ever grows by \<open>dt\<close>, so it is a real.
\<close>

function trajectory_loop ::
  "jsobj \<Rightarrow> jsnum \<Rightarrow> jsnum \<Rightarrow> jsnum \<Rightarrow> jsnum \<Rightarrow> jsnum \<times> jsnum \<times> jsnum \<times> jsnum \<Rightarrow> real
     \<Rightarrow> trajectory_point list" where
  "trajectory_loop obj airDensity gravity windX windY s t =
     (if Num 0 \<le> fst (snd s) then
        (let s' = step obj airDensity gravity windX windY s
         in point_at t s' #
              (if 300 < t + dt then []
               else trajectory_loop obj airDensity gravity windX windY s' (t + dt)))
      else [])"
  by pat_completeness auto
termination
proof (relation "measure (\<lambda>(obj, airDensity, gravity, windX, windY, s, t). nat \<lceil>(301 - t) * 100\<rceil>)")
  fix obj :: jsobj and airDensity gravity windX windY :: jsnum
    and s s' :: "jsnum \<times> jsnum \<times> jsnum \<times> jsnum" and t :: real
  assume "\<not> 300 < t + dt"
  then have le: "t + 1 / 100 \<le> 300"
    by (simp add: dt_def)
  have "(301 - (t + dt)) * 100 = (301 - t) * 100 - 1"
    by (simp add: dt_def algebra_simps)
  also have "\<lceil>\<dots>\<rceil> = \<lceil>(301 - t) * 100\<rceil> - 1"
    by (rule ceiling_diff_one)
  finally have "\<lceil>(301 - (t + dt)) * 100\<rceil> < \<lceil>(301 - t) * 100\<rceil>"
    by simp
  moreover from le have "0 < \<lceil>(301 - t) * 100\<rceil>"
    by (simp add: ceiling_less_iff)
  ultimately show "((obj, airDensity, gravity, windX, windY, s', t + dt),
              (obj, airDensity, gravity, windX, windY, s, t))
             \<in> measure (\<lambda>(obj, airDensity, gravity, windX, windY, s, t). nat \<lceil>(301 - t) * 100\<rceil>)"
    by simp
qed simp

declare trajectory_loop.simps [simp del]

definition calculateTrajectory :: "trajectory_params \<Rightarrow> trajectory_point list" where
  "calculateTrajectory params =
     (let initialHeight = Num (default_to 0 (tp_initialHeight params));
          initialVelocity = Num (default_to 10 (tp_initialVelocity params));
          launchAngle = Num (default_to 45 (tp_launchAngle params));
          material = default_to ''basketball'' (tp_material params);
          windSpeed = Num (default_to 0 (tp_windSpeed params));
          windDirection = Num (default_to 0 (tp_windDirection params));
          airDensity = Num (default_to AIR_DENSITY (tp_airDensity params));
          gravity = Num (default_to GRAVITY (tp_gravity params));
          obj = lookupMaterial material;
          angleRad = (launchAngle * Math_PI) / Num 180;
          windDirRad = (windDirection * Math_PI) / Num 180;
          vx = initialVelocity * Math_cos angleRad;
          vy = initialVelocity * Math_sin angleRad;
          windX = windSpeed * Math_cos windDirRad;
          windY = windSpeed * Math_sin windDirRad
      in trajectory_loop obj airDensity gravity windX windY (Num 0, initialHeight, vx, vy) 0)"


section \<open>Impacts\<close>

record final_velocity =
  fv_vx :: jsnum
  fv_vy :: jsnum

text \<open>
  The property \<^verbatim>\<open>impactForce\<close> of the result is the field \<open>adjustedImpactForce\<close>
  here: the result of a collision has a property of the same name.
\<close>

record impact_result =
  impactSpeed :: jsnum
  kineticEnergy :: jsnum
  adjustedImpactForce :: jsnum
  impactAngle :: jsnum
  estimatedContactTime :: jsnum

definition surfaceFactors :: "(string \<times> real) list" where
  "surfaceFactors =
     [ (''concrete'', 1.0), (''grass'', 0.7), (''sand'', 0.5), (''water'', 0.3),
       (''wood'', 0.8), (''metal'', 1.2) ]"

text \<open>
  \<^verbatim>\<open>surfaceFactors[impactSurface] || 1.0\<close>, as it enters the product with the force: an
  inherited property is an object that is truthy and not a number.
\<close>

definition surfaceFactor_of :: "string \<Rightarrow> jsnum" where
  "surfaceFactor_of impactSurface =
     (case map_of surfaceFactors impactSurface of
        Some f \<Rightarrow> if f = 0 then Num 1.0 else Num f
      | None \<Rightarrow> if impactSurface \<in> set Object_prototype then NaN else Num 1.0)"

definition calculateImpact :: "final_velocity \<Rightarrow> string option \<Rightarrow> string option \<Rightarrow> impact_result" where
  "calculateImpact finalVelocity material_arg impactSurface_arg =
     (let material = default_to ''basketball'' material_arg;
          impactSurface = default_to ''concrete'' impactSurface_arg;
          obj = lookupMaterial material;
          speed = Math_sqrt (fv_vx finalVelocity * fv_vx finalVelocity +
                             fv_vy finalVelocity * fv_vy finalVelocity);
          kinetic = Num 0.5 * prop_mass obj * speed * speed;
          contactTime = prop_bounciness obj * Num 0.01;
          force = (prop_mass obj * speed) / contactTime;
          surfaceFactor = surfaceFactor_of impactSurface;
          adjustedForce = force * surfaceFactor
      in \<lparr> impactSpeed = parseFloat_toFixed speed 3,
           kineticEnergy = parseFloat_toFixed kinetic 3,
           adjustedImpactForce = parseFloat_toFixed adjustedForce 3,
           impactAngle =
             parseFloat_toFixed
               ((Math_atan2 (Math_abs (fv_vy finalVelocity)) (Math_abs (fv_vx finalVelocity))
                  * Num 180) / Math_PI) 2,
           estimatedContactTime = parseFloat_toFixed (contactTime * Num 1000) 2 \<rparr>)"


section \<open>Forces\<close>

record force_params =
  fp_mass :: "real option"
  fp_velocity :: "real vector2 option"
  fp_height :: "real option"
  fp_material :: "string option"
  fp_includeAirResistance :: "bool option"

record force =
  magnitude :: jsnum
  direction :: string
  vector :: "jsnum vector2"

record net_force =
  net_magnitude :: jsnum
  net_vector :: "jsnum vector2"

record forces =
  f_gravity :: force
  f_airResistance :: "force option"
  f_buoyancy :: force
  f_net :: net_force

definition airResistance_of :: "jsobj \<Rightarrow> jsnum vector2 \<Rightarrow> force" where
  "airResistance_of obj velocity =
     (let speed = Math_sqrt (js_pow (vec_x velocity) 2 + js_pow (vec_y velocity) 2);
          crossSectionalArea = Math_PI * prop_radius obj * prop_radius obj;
          dragMagnitude =
            Num 0.5 * prop_dragCoeff obj * Num AIR_DENSITY * crossSectionalArea * speed * speed
      in \<lparr> magnitude = parseFloat_toFixed dragMagnitude 3,
           direction = ''opposite to velocity'',
           vector =
             \<lparr> vec_x = (if Num 0 < speed
                        then parseFloat_toFixed (((- dragMagnitude) * vec_x velocity) / speed) 3
                        else Num 0),
               vec_y = (if Num 0 < speed
                        then parseFloat_toFixed (((- dragMagnitude) * vec_y velocity) / speed) 3
                        else Num 0) \<rparr> \<rparr>)"

text \<open>
  The parameters \<^verbatim>\<open>mass\<close> and \<^verbatim>\<open>height\<close> are destructured, with their defaults, and not
  used afterwards.
\<close>

definition calculateForces :: "force_params \<Rightarrow> forces" where
  "calculateForces params =
     (let mass_arg = Num (default_to 1 (fp_mass params));
          velocity = num_vec (default_to \<lparr> vec_x = 0, vec_y = 0 \<rparr> (fp_velocity params));
          height = Num (default_to 0 (fp_height params));
          material = default_to ''basketball'' (fp_material params);
          includeAirResistance = default_to True (fp_includeAirResistance params);
          obj = lookupMaterial material;
          gravityForce =
            \<lparr> magnitude = prop_mass obj * Num GRAVITY,
              direction = ''downward'',
              vector = \<lparr> vec_x = Num 0, vec_y = (- prop_mass obj) * Num GRAVITY \<rparr> \<rparr>;
          airResistance =
            (if includeAirResistance then Some (airResistance_of obj velocity) else None);
          airBuoyancy =
            Num AIR_DENSITY * Num GRAVITY *
              ((Num 4 / Num 3) * Math_PI * js_pow (prop_radius obj) 3);
          buoyancyForce =
            \<lparr> magnitude = parseFloat_toFixed airBuoyancy 6,
              direction = ''upward'',
              vector = \<lparr> vec_x = Num 0, vec_y = airBuoyancy \<rparr> \<rparr>;
          netForce =
            \<lparr> vec_x = vec_x (vector gravityForce) +
                      (case airResistance of None \<Rightarrow> Num 0
                       | Some a \<Rightarrow> or_zero (vec_x (vector a))) +
                      vec_x (vector buoyancyForce),
              vec_y = vec_y (vector gravityForce) +
                      (case airResistance of None \<Rightarrow> Num 0
                       | Some a \<Rightarrow> or_zero (vec_y (vector a))) +
                      vec_y (vector buoyancyForce) \<rparr>
      in \<lparr> f_gravity = gravityForce,
           f_airResistance = airResistance,
           f_buoyancy = buoyancyForce,
           f_net =
             \<lparr> net_magnitude =
                 parseFloat_toFixed
                   (Math_sqrt (js_pow (vec_x netForce) 2 + js_pow (vec_y netForce) 2)) 3,
               net_vector =
                 \<lparr> vec_x = parseFloat_toFixed (vec_x netForce) 3,
                   vec_y = parseFloat_toFixed (vec_y netForce) 3 \<rparr> \<rparr> \<rparr>)"


section \<open>Divisions\<close>

text \<open>
  To say that no division by zero occurs, each function that divides is written a second
  time with every \<^verbatim>\<open>/\<close> of the source replaced by a division that fails, with \<open>None\<close>,
  on the divisor zero. The rest of each function is as above.
\<close>

definition checked_div :: "jsnum \<Rightarrow> jsnum \<Rightarrow> jsnum option" where
  "checked_div a b = (if b = Num 0 then None else Some (a / b))"

definition step_checked ::
  "jsobj \<Rightarrow> jsnum \<Rightarrow> jsnum \<Rightarrow> jsnum \<Rightarrow> jsnum \<Rightarrow> jsnum \<times> jsnum \<times> jsnum \<times> jsnum
     \<Rightarrow> (jsnum \<times> jsnum \<times> jsnum \<times> jsnum) option" where
  "step_checked obj airDensity gravity windX windY s =
     (case s of (x, y, vx, vy) \<Rightarrow>
        let vRelX = vx - windX;
            vRelY = vy - windY;
            vRel = Math_sqrt (vRelX * vRelX + vRelY * vRelY);
            crossSectionalArea = Math_PI * prop_radius obj * prop_radius obj;
            dragMagnitude =
              Num 0.5 * prop_dragCoeff obj * airDensity * crossSectionalArea * vRel * vRel
        in do {
             dragX \<leftarrow> (if Num 0 < vRel
                       then do { q \<leftarrow> checked_div vRelX vRel;
                                 checked_div ((- dragMagnitude) * q) (prop_mass obj) }
                       else Some (Num 0));
             dragY \<leftarrow> (if Num 0 < vRel
                       then do { q \<leftarrow> checked_div vRelY vRel;
                                 checked_div ((- dragMagnitude) * q) (prop_mass obj) }
                       else Some (Num 0));
             let vx' = vx + dragX * Num dt;
             let vy' = vy + (- gravity + dragY) * Num dt;
             let x' = x + vx' * Num dt;
             let y' = y + vy' * Num dt;
             Some (x', y', vx', vy')
           })"

function trajectory_loop_checked ::
  "jsobj \<Rightarrow> jsnum \<Rightarrow> jsnum \<Rightarrow> jsnum \<Rightarrow> jsnum \<Rightarrow> jsnum \<times> jsnum \<times> jsnum \<times> jsnum \<Rightarrow> real
     \<Rightarrow> trajectory_point list option" where
  "trajectory_loop_checked obj airDensity gravity windX windY s t =
     (if Num 0 \<le> fst (snd s) then
        (case step_checked obj airDensity gravity windX windY s of
           None \<Rightarrow> None
         | Some s' \<Rightarrow>
             (if 300 < t + dt then Some [point_at t s']
              else map_option ((#) (point_at t s'))
                     (trajectory_loop_checked obj airDensity gravity windX windY s' (t + dt))))
      else Some [])"
  by pat_completeness auto
termination
proof (relation "measure (\<lambda>(obj, airDensity, gravity, windX, windY, s, t). nat \<lceil>(301 - t) * 100\<rceil>)")
  fix obj :: jsobj and airDensity gravity windX windY :: jsnum
    and s s' :: "jsnum \<times> jsnum \<times> jsnum \<times> jsnum" and t :: real
  assume "\<not> 300 < t + dt"
  then have le: "t + 1 / 100 \<le> 300"
    by (simp add: dt_def)
  have "(301 - (t + dt)) * 100 = (301 - t) * 100 - 1"
    by (simp add: dt_def algebra_simps)
  also have "\<lceil>\<dots>\<rceil> = \<lceil>(301 - t) * 100\<rceil> - 1"
    by (rule ceiling_diff_one)
  finally have "\<lceil>(301 - (t + dt)) * 100\<rceil> < \<lceil>(301 - t) * 100\<rceil>"
    by simp
  moreover from le have "0 < \<lceil>(301 - t) * 100\<rceil>"
    by (simp add: ceiling_less_iff)
  ultimately show "((obj, airDensity, gravity, windX, windY, s', t + dt),
              (obj, airDensity, gravity, windX, windY, s, t))
             \<in> measure (\<lambda>(obj, airDensity, gravity, windX, windY, s, t). nat \<lceil>(301 - t) * 100\<rceil>)"
    by simp
qed simp

declare trajectory_loop_checked.simps [simp del]

definition calculateTrajectory_checked :: "trajectory_params \<Rightarrow> trajectory_point list option" where
  "calculateTrajectory_checked params =
     (let initialHeight = Num (default_to 0 (tp_initialHeight params));
          initialVelocity = Num (default_to 10 (tp_initialVelocity params));
          launchAngle = Num (default_to 45 (tp_launchAngle params));
          material = default_to ''basketball'' (tp_material params);
          windSpeed = Num (default_to 0 (tp_windSpeed params));
          windDirection = Num (default_to 0 (tp_windDirection params));
          airDensity = Num (default_to AIR_DENSITY (tp_airDensity params));
          gravity = Num (default_to GRAVITY (tp_gravity params));
          obj = lookupMaterial material
      in do {
           angleRad \<leftarrow> checked_div (launchAngle * Math_PI) (Num 180);
           windDirRad \<leftarrow> checked_div (windDirection * Math_PI) (Num 180);
           let vx = initialVelocity * Math_cos angleRad;
           let vy = initialVelocity * Math_sin angleRad;
           let windX = windSpeed * Math_cos windDirRad;
           let windY = windSpeed * Math_sin windDirRad;
           trajectory_loop_checked obj airDensity gravity windX windY
             (Num 0, initialHeight, vx, vy) 0
         })"


definition calculateImpact_checked ::
  "final_velocity \<Rightarrow> string option \<Rightarrow> string option \<Rightarrow> impact_result option" where
  "calculateImpact_checked finalVelocity material_arg impactSurface_arg =
     (let material = default_to ''basketball'' material_arg;
          impactSurface = default_to ''concrete'' impactSurface_arg;
          obj = lookupMaterial material;
          speed = Math_sqrt (fv_vx finalVelocity * fv_vx finalVelocity +
                             fv_vy finalVelocity * fv_vy finalVelocity);
          kinetic = Num 0.5 * prop_mass obj * speed * speed;
          contactTime = prop_bounciness obj * Num 0.01
      in do {
           force \<leftarrow> checked_div (prop_mass obj * speed) contactTime;
           let surfaceFactor = surfaceFactor_of impactSurface;
           let adjustedForce = force * surfaceFactor;
           angle \<leftarrow> checked_div
                      (Math_atan2 (Math_abs (fv_vy finalVelocity)) (Math_abs (fv_vx finalVelocity))
                         * Num 180) Math_PI;
           Some \<lparr> impactSpeed = parseFloat_toFixed speed 3,
                  kineticEnergy = parseFloat_toFixed kinetic 3,
                  adjustedImpactForce = parseFloat_toFixed adjustedForce 3,
                  impactAngle = parseFloat_toFixed angle 2,
                  estimatedContactTime = parseFloat_toFixed (contactTime * Num 1000) 2 \<rparr>
         })"

definition airResistance_of_checked :: "jsobj \<Rightarrow> jsnum vector2 \<Rightarrow> force option" where
  "airResistance_of_checked obj velocity =
     (let speed = Math_sqrt (js_pow (vec_x velocity) 2 + js_pow (vec_y velocity) 2);
          crossSectionalArea = Math_PI * prop_radius obj * prop_radius obj;
          dragMagnitude =
            Num 0.5 * prop_dragCoeff obj * Num AIR_DENSITY * crossSectionalArea * speed * speed
      in do {
           ax \<leftarrow> (if Num 0 < speed
                    then do { q \<leftarrow> checked_div ((- dragMagnitude) * vec_x velocity) speed;
                              Some (parseFloat_toFixed q 3) }
                    else Some (Num 0));
           ay \<leftarrow> (if Num 0 < speed
                    then do { q \<leftarrow> checked_div ((- dragMagnitude) * vec_y velocity) speed;
                              Some (parseFloat_toFixed q 3) }
                    else Some (Num 0));
           Some \<lparr> magnitude = parseFloat_toFixed dragMagnitude 3,
                  direction = ''opposite to velocity'',
                  vector = \<lparr> vec_x = ax, vec_y = ay \<rparr> \<rparr>
         })"

definition calculateForces_checked :: "force_params \<Rightarrow> forces option" where
  "calculateForces_checked params =
     (let mass_arg = Num (default_to 1 (fp_mass params));
          velocity = num_vec (default_to \<lparr> vec_x = 0, vec_y = 0 \<rparr> (fp_velocity params));
          height = Num (default_to 0 (fp_height params));
          material = default_to ''basketball'' (fp_material params);
          includeAirResistance = default_to True (fp_includeAirResistance params);
          obj = lookupMaterial material;
          gravityForce =
            \<lparr> magnitude = prop_mass obj * Num GRAVITY,
              direction = ''downward'',
              vector = \<lparr> vec_x = Num 0, vec_y = (- prop_mass obj) * Num GRAVITY \<rparr> \<rparr>
      in do {
           airResistance \<leftarrow>
             (if includeAirResistance then map_option Some (airResistance_of_checked obj velocity)
              else Some None);
           fourThirds \<leftarrow> checked_div (Num 4) (Num 3);
           let airBuoyancy =
             Num AIR_DENSITY * Num GRAVITY * (fourThirds * Math_PI * js_pow (prop_radius obj) 3);
           let buoyancyForce =
             \<lparr> magnitude = parseFloat_toFixed airBuoyancy 6,
               direction = ''upward'',
               vector = \<lparr> vec_x = Num 0, vec_y = airBuoyancy \<rparr> \<rparr>;
           let netForce =
             \<lparr> vec_x = vec_x (vector gravityForce) +
                       (case airResistance of None \<Rightarrow> Num 0
                        | Some a \<Rightarrow> or_zero (vec_x (vector a))) +
                       vec_x (vector buoyancyForce),
               vec_y = vec_y (vector gravityForce) +
                       (case airResistance of None \<Rightarrow> Num 0
                        | Some a \<Rightarrow> or_zero (vec_y (vector a))) +
                       vec_y (vector buoyancyForce) \<rparr>;
           Some \<lparr> f_gravity = gravityForce,
                  f_airResistance = airResistance,
                  f_buoyancy = buoyancyForce,
                  f_net =
                    \<lparr> net_magnitude =
                        parseFloat_toFixed
                          (Math_sqrt (js_pow (vec_x netForce) 2 + js_pow (vec_y netForce) 2)) 3,
                      net_vector =
                        \<lparr> vec_x = parseFloat_toFixed (vec_x netForce) 3,
                          vec_y = parseFloat_toFixed (vec_y netForce) 3 \<rparr> \<rparr> \<rparr>
         })"

definition v1Final_checked ::
  "jsnum \<Rightarrow> jsnum vector2 \<Rightarrow> jsnum \<Rightarrow> jsnum vector2 \<Rightarrow> jsnum \<Rightarrow> jsnum vector2 option" where
  "v1Final_checked mass1 velocity1 mass2 velocity2 restitution =
     (let totalMass = mass1 + mass2;
          rel = relativeVelocity velocity1 velocity2
      in do {
           qx \<leftarrow> checked_div (Num 2 * mass2) totalMass;
           qy \<leftarrow> checked_div (Num 2 * mass2) totalMass;
           Some \<lparr> vec_x = vec_x velocity1 - qx * vec_x rel * restitution,
                  vec_y = vec_y velocity1 - qy * vec_y rel * restitution \<rparr>
         })"

definition v2Final_checked ::
  "jsnum \<Rightarrow> jsnum vector2 \<Rightarrow> jsnum \<Rightarrow> jsnum vector2 \<Rightarrow> jsnum \<Rightarrow> jsnum vector2 option" where
  "v2Final_checked mass1 velocity1 mass2 velocity2 restitution =
     (let totalMass = mass1 + mass2;
          rel = relativeVelocity velocity1 velocity2
      in do {
           qx \<leftarrow> checked_div (Num 2 * mass1) totalMass;
           qy \<leftarrow> checked_div (Num 2 * mass1) totalMass;
           Some \<lparr> vec_x = vec_x velocity2 + qx * vec_x rel * restitution,
                  vec_y = vec_y velocity2 + qy * vec_y rel * restitution \<rparr>
         })"

definition collide_checked ::
  "jsnum \<Rightarrow> jsnum vector2 \<Rightarrow> jsnum \<Rightarrow> jsnum vector2 \<Rightarrow> jsnum \<Rightarrow> collision_result option" where
  "collide_checked mass1 velocity1 mass2 velocity2 restitution =
     (let rel = relativeVelocity velocity1 velocity2
      in do {
           v1 \<leftarrow> v1Final_checked mass1 velocity1 mass2 velocity2 restitution;
           v2 \<leftarrow> v2Final_checked mass1 velocity1 mass2 velocity2 restitution;
           let initialKE = kineticEnergy2 mass1 velocity1 mass2 velocity2;
           let finalKE = kineticEnergy2 mass1 v1 mass2 v2;
           force \<leftarrow> checked_div
                      (mass1 * Math_sqrt (js_pow (vec_x rel) 2 + js_pow (vec_y rel) 2))
                      (Num 0.01);
           Some \<lparr> object1FinalVelocity =
                    \<lparr> vec_x = parseFloat_toFixed (vec_x v1) 3,
                      vec_y = parseFloat_toFixed (vec_y v1) 3 \<rparr>,
                  object2FinalVelocity =
                    \<lparr> vec_x = parseFloat_toFixed (vec_x v2) 3,
                      vec_y = parseFloat_toFixed (vec_y v2) 3 \<rparr>,
                  energyLoss = parseFloat_toFixed (initialKE - finalKE) 3,
                  impactForce = parseFloat_toFixed force 3 \<rparr>
         })"

definition calculateCollision_checked ::
  "collision_obj \<Rightarrow> collision_obj \<Rightarrow> collision_result option" where
  "calculateCollision_checked obj1 obj2 =
     (let merged = spread obj1 obj2
      in collide_checked (Num (mass1_of merged)) (num_vec (velocity1_of merged))
           (Num (mass2_of merged)) (num_vec (velocity2_of merged))
           (Num (restitution_of merged)))"


section \<open>Notions used to state the properties\<close>

text \<open>The momentum of two bodies along one axis.\<close>

definition momentum :: "jsnum \<Rightarrow> jsnum \<Rightarrow> jsnum \<Rightarrow> jsnum \<Rightarrow> jsnum" where
  "momentum m1 u1 m2 u2 = m1 * u1 + m2 * u2"

text \<open>Two numbers agree within a relative tolerance.\<close>

definition rel_close :: "real \<Rightarrow> jsnum \<Rightarrow> jsnum \<Rightarrow> bool" where
  "rel_close tol a b =
     (case a of NaN \<Rightarrow> False
      | Num p \<Rightarrow> (case b of NaN \<Rightarrow> False | Num q \<Rightarrow> \<bar>p - q\<bar> \<le> tol * max \<bar>p\<bar> \<bar>q\<bar>))"

text \<open>The empty object \<^verbatim>\<open>{}\<close>, and the two objects of the momentum test of the test suite.\<close>

definition no_properties :: collision_obj where
  "no_properties =
     \<lparr> co_mass1 = None, co_velocity1 = None, co_mass2 = None, co_velocity2 = None,
       co_restitution = None \<rparr>"

definition test_object1 :: collision_obj where
  "test_object1 =
     no_properties \<lparr> co_mass1 := Some 2, co_velocity1 := Some \<lparr> vec_x = 10, vec_y = 0 \<rparr> \<rparr>"

definition test_object2 :: collision_obj where
  "test_object2 =
     no_properties \<lparr> co_mass2 := Some 1, co_velocity2 := Some \<lparr> vec_x = 0, vec_y = 0 \<rparr>,
                     co_restitution := Some 1 \<rparr>"



text \<open>
  Two bodies of 5 kg and 3 kg with velocities of 62812773 m/s and 92293005 m/s along
  \<open>x\<close>, and restitution 1.
\<close>

definition fast_object1 :: collision_obj where
  "fast_object1 =
     no_properties \<lparr> co_mass1 := Some 5, co_velocity1 := Some \<lparr> vec_x = 62812773, vec_y = 0 \<rparr> \<rparr>"

definition fast_object2 :: collision_obj where
  "fast_object2 =
     no_properties \<lparr> co_mass2 := Some 3, co_velocity2 := Some \<lparr> vec_x = 92293005, vec_y = 0 \<rparr>,
                     co_restitution := Some 1 \<rparr>"


text \<open>The request for \<^verbatim>\<open>/api/forces\<close> shown in the README.\<close>

definition readme_forces_request :: force_params where
  "readme_forces_request =
     \<lparr> fp_mass = Some 2, fp_velocity = Some \<lparr> vec_x = 5, vec_y = 2 \<rparr>, fp_height = Some 10,
       fp_material = Some ''rock'', fp_includeAirResistance = Some True \<rparr>"

text \<open>
  The constraints on the parameters of a trajectory, on the values that the destructuring
  gives (the default where a parameter is absent).
\<close>

definition valid_params :: "trajectory_params \<Rightarrow> bool" where
  "valid_params params \<longleftrightarrow>
     0 \<le> default_to 0 (tp_initialHeight params)
     \<and> 0 < default_to 10 (tp_initialVelocity params)
     \<and> - 90 \<le> default_to 45 (tp_launchAngle params)
     \<and> default_to 45 (tp_launchAngle params) \<le> 90
     \<and> 0 \<le> default_to 0 (tp_windSpeed params)
     \<and> 0 < default_to AIR_DENSITY (tp_airDensity params)
     \<and> 0 < default_to GRAVITY (tp_gravity params)"

text \<open>The empty parameter object: every parameter takes its default.\<close>

definition default_params :: trajectory_params where
  "default_params =
     \<lparr> tp_initialHeight = None, tp_initialVelocity = None, tp_launchAngle = None,
       tp_material = None, tp_windSpeed = None, tp_windDirection = None,
       tp_airDensity = None, tp_gravity = None \<rparr>"


text \<open>
  The step of the loop for an object that is a material, on reals: the drag of the source is
  \<open>- c r (v - w)\<close> per unit of mass along each axis, with \<open>r\<close> the speed relative to
  the air and \<open>c\<close> the factor below. The lemma \<open>step_Props\<close> shows that the step of
  the source computes this.
\<close>

definition drag_factor :: "material \<Rightarrow> real \<Rightarrow> real" where
  "drag_factor mat rho = 0.5 * dragCoeff mat * rho * (pi * radius mat * radius mat) / mass mat"

definition euler_step ::
  "real \<Rightarrow> real \<Rightarrow> real \<Rightarrow> real \<Rightarrow> real \<times> real \<times> real \<times> real \<Rightarrow> real \<times> real \<times> real \<times> real" where
  "euler_step c g wx wy s =
     (case s of (x, y, vx, vy) \<Rightarrow>
        let r = sqrt ((vx - wx) * (vx - wx) + (vy - wy) * (vy - wy));
            vx' = vx - c * r * (vx - wx) * dt;
            vy' = vy + (- g - c * r * (vy - wy)) * dt
        in (x + vx' * dt, y + vy' * dt, vx', vy'))"

definition num_state :: "real \<times> real \<times> real \<times> real \<Rightarrow> jsnum \<times> jsnum \<times> jsnum \<times> jsnum" where
  "num_state s = (case s of (x, y, vx, vy) \<Rightarrow> (Num x, Num y, Num vx, Num vy))"

text \<open>The catalog entry \<open>basketball\<close>.\<close>

definition basketball :: material where
  "basketball = \<lparr> mass = 0.624, radius = 0.1194, dragCoeff = 0.47, bounciness = 0.85 \<rparr>"

text \<open>A basketball thrown straight down at 10 m/s from a height of 10 km.\<close>

definition long_fall_params :: trajectory_params where
  "long_fall_params =
     default_params \<lparr> tp_initialHeight := Some 10000, tp_launchAngle := Some (- 90) \<rparr>"






section \<open>Arithmetic of the number model\<close>

lemma Num_plus [simp]: "Num a + Num b = Num (a + b)"
  by (simp add: plus_jsnum_def)

lemma Num_minus [simp]: "Num a - Num b = Num (a - b)"
  by (simp add: minus_jsnum_def)

lemma Num_uminus [simp]: "- Num a = Num (- a)"
  by (simp add: uminus_jsnum_def)

lemma Num_times [simp]: "Num a * Num b = Num (a * b)"
  by (simp add: times_jsnum_def)

lemma Num_divide [simp]: "b \<noteq> 0 \<Longrightarrow> Num a / Num b = Num (a / b)"
  by (simp add: divide_jsnum_def)

lemma Num_le [simp]: "Num a \<le> Num b \<longleftrightarrow> a \<le> b"
  by (simp add: less_eq_jsnum_def)

lemma Num_less [simp]: "Num a < Num b \<longleftrightarrow> a < b"
  by (simp add: less_jsnum_def)

lemma NaN_arith [simp]:
  "NaN + a = NaN" "a + NaN = NaN" "NaN - a = NaN" "a - NaN = NaN" "- NaN = NaN"
  "NaN * a = NaN" "a * NaN = NaN" "NaN / a = NaN" "a / NaN = NaN"
  by (simp_all add: plus_jsnum_def minus_jsnum_def uminus_jsnum_def times_jsnum_def
        divide_jsnum_def split: jsnum.splits)

lemma NaN_compare [simp]:
  "\<not> NaN \<le> a" "\<not> a \<le> NaN" "\<not> NaN < a" "\<not> a < NaN"
  by (simp_all add: less_eq_jsnum_def less_jsnum_def split: jsnum.splits)

lemma js_pow_Num [simp]: "js_pow (Num a) n = Num (a ^ n)"
  by (simp add: js_pow_def)

lemma Math_sqrt_Num [simp]: "0 \<le> a \<Longrightarrow> Math_sqrt (Num a) = Num (sqrt a)"
  by (simp add: Math_sqrt_def)

lemma Math_sqrt_NaN [simp]: "Math_sqrt NaN = NaN"
  by (simp add: Math_sqrt_def)

lemma Math_cos_Num [simp]: "Math_cos (Num a) = Num (cos a)"
  by (simp add: Math_cos_def)

lemma Math_sin_Num [simp]: "Math_sin (Num a) = Num (sin a)"
  by (simp add: Math_sin_def)

lemma parseFloat_toFixed_NaN [simp]: "parseFloat_toFixed NaN d = NaN"
  by (simp add: parseFloat_toFixed_def)

section \<open>Rounding for output\<close>

lemma round_half_away_error: "\<bar>round_half_away v d - v\<bar> \<le> 1 / (2 * 10 ^ d)"
proof -
  define k :: real where "k = 10 ^ d"
  have k: "0 < k" by (simp add: k_def)
  define n where "n = \<lfloor>\<bar>v\<bar> * k + 1 / 2\<rfloor>"
  have lo: "of_int n \<le> \<bar>v\<bar> * k + 1 / 2" and hi: "\<bar>v\<bar> * k + 1 / 2 < of_int n + 1"
    unfolding n_def by linarith+
  have "\<bar>of_int n - \<bar>v\<bar> * k\<bar> \<le> 1 / 2" using lo hi by linarith
  then have "\<bar>of_int n / k - \<bar>v\<bar>\<bar> * k \<le> 1 / 2"
    using k by (simp add: abs_mult[symmetric] field_simps)
  then have a: "\<bar>of_int n / k - \<bar>v\<bar>\<bar> \<le> 1 / (2 * k)"
    using k by (simp add: field_simps)
  have "round_half_away v d - v = sgn v * (of_int n / k - \<bar>v\<bar>)"
    by (simp add: round_half_away_def n_def k_def algebra_simps sgn_real_def)
  then have "\<bar>round_half_away v d - v\<bar> = \<bar>sgn v\<bar> * \<bar>of_int n / k - \<bar>v\<bar>\<bar>"
    by (simp add: abs_mult)
  also have "\<dots> \<le> \<bar>of_int n / k - \<bar>v\<bar>\<bar>"
    by (simp add: sgn_real_def)
  finally show ?thesis using a by (simp add: k_def)
qed




section \<open>Properties of collisions\<close>

lemmas collide_defs = collide_def v1Final_def v2Final_def relativeVelocity_def kineticEnergy2_def
  num_vec_def Let_def

lemma v1Final_Num:
  "m1 + m2 \<noteq> 0 \<Longrightarrow>
   v1Final (Num m1) (num_vec u1) (Num m2) (num_vec u2) (Num e) =
     \<lparr> vec_x = Num (vec_x u1 - (2 * m2 / (m1 + m2)) * (vec_x u1 - vec_x u2) * e),
       vec_y = Num (vec_y u1 - (2 * m2 / (m1 + m2)) * (vec_y u1 - vec_y u2) * e) \<rparr>"
  by (simp add: collide_defs)

lemma v2Final_Num:
  "m1 + m2 \<noteq> 0 \<Longrightarrow>
   v2Final (Num m1) (num_vec u1) (Num m2) (num_vec u2) (Num e) =
     \<lparr> vec_x = Num (vec_x u2 + (2 * m1 / (m1 + m2)) * (vec_x u1 - vec_x u2) * e),
       vec_y = Num (vec_y u2 + (2 * m1 / (m1 + m2)) * (vec_y u1 - vec_y u2) * e) \<rparr>"
  by (simp add: collide_defs)

lemma axis_rewrite:
  fixes m1 m2 a b e :: real
  shows "(2 * m2 / (m1 + m2)) * (a - b) * e = 2 * m2 * ((a - b) * e / (m1 + m2))"
    and "(2 * m1 / (m1 + m2)) * (a - b) * e = 2 * m1 * ((a - b) * e / (m1 + m2))"
  by simp_all


lemma axis_momentum:
  fixes m1 m2 a b e :: real
  shows "m1 * (a - (2 * m2 / (m1 + m2)) * (a - b) * e)
            + m2 * (b + (2 * m1 / (m1 + m2)) * (a - b) * e) = m1 * a + m2 * b"
  unfolding axis_rewrite by (simp add: algebra_simps)

lemmas dest_defs = spread_def over_def default_to_def mass1_of_def mass2_of_def velocity1_of_def
  velocity2_of_def restitution_of_def no_properties_def

lemma collide_velocity1:
  "m1 + m2 \<noteq> 0 \<Longrightarrow>
   object1FinalVelocity (collide (Num m1) (num_vec u1) (Num m2) (num_vec u2) (Num e)) =
     \<lparr> vec_x = parseFloat_toFixed (Num (vec_x u1 - (2 * m2 / (m1 + m2)) * (vec_x u1 - vec_x u2) * e)) 3,
       vec_y = parseFloat_toFixed (Num (vec_y u1 - (2 * m2 / (m1 + m2)) * (vec_y u1 - vec_y u2) * e)) 3 \<rparr>"
  by (simp add: collide_def v1Final_Num Let_def)

lemma collide_velocity2:
  "m1 + m2 \<noteq> 0 \<Longrightarrow>
   object2FinalVelocity (collide (Num m1) (num_vec u1) (Num m2) (num_vec u2) (Num e)) =
     \<lparr> vec_x = parseFloat_toFixed (Num (vec_x u2 + (2 * m1 / (m1 + m2)) * (vec_x u1 - vec_x u2) * e)) 3,
       vec_y = parseFloat_toFixed (Num (vec_y u2 + (2 * m1 / (m1 + m2)) * (vec_y u1 - vec_y u2) * e)) 3 \<rparr>"
  by (simp add: collide_def v2Final_Num Let_def)



lemma calculateCollision_collide:
  assumes "mass1_of (spread obj1 obj2) = m1" "velocity1_of (spread obj1 obj2) = u1"
    "mass2_of (spread obj1 obj2) = m2" "velocity2_of (spread obj1 obj2) = u2"
    "restitution_of (spread obj1 obj2) = e"
  shows "calculateCollision obj1 obj2 = collide (Num m1) (num_vec u1) (Num m2) (num_vec u2) (Num e)"
  using assms by (simp add: calculateCollision_def Let_def)



lemma test_objects:
  "mass1_of (spread test_object1 test_object2) = 2"
  "velocity1_of (spread test_object1 test_object2) = \<lparr> vec_x = 10, vec_y = 0 \<rparr>"
  "mass2_of (spread test_object1 test_object2) = 1"
  "velocity2_of (spread test_object1 test_object2) = \<lparr> vec_x = 0, vec_y = 0 \<rparr>"
  "restitution_of (spread test_object1 test_object2) = 1"
  by (simp_all add: dest_defs test_object1_def test_object2_def)

lemma test_collision:
  "calculateCollision test_object1 test_object2 =
     collide (Num 2) (num_vec \<lparr> vec_x = 10, vec_y = 0 \<rparr>) (Num 1)
       (num_vec \<lparr> vec_x = 0, vec_y = 0 \<rparr>) (Num 1)"
  by (rule calculateCollision_collide) (rule test_objects)+

text \<open>
  Claim C3, as stated for the velocities that \<^verbatim>\<open>calculateCollision\<close> returns, fails: for
  masses 2 and 1, velocities \<open>(10, 0)\<close> and \<open>(0, 0)\<close> and restitution 1 the momentum
  along \<open>x\<close> is 20 before the collision, and \<open>2 * 3.333 + 1 * 13.333 = 19.999\<close> with the
  returned velocities, which is not within the relative tolerance \<open>10\<^sup>-\<^sup>6\<close>.
\<close>
theorem collision_momentum_returned_counterexample:
  "\<not> rel_close (1 / 10 ^ 6)
       (momentum (Num 2) (Num 10) (Num 1) (Num 0))
       (momentum
          (Num 2) (vec_x (object1FinalVelocity (calculateCollision test_object1 test_object2)))
          (Num 1) (vec_x (object2FinalVelocity (calculateCollision test_object1 test_object2))))"
  unfolding test_collision
  by (simp add: collide_velocity1 collide_velocity2 parseFloat_toFixed_def round_half_away_def
        momentum_def rel_close_def)

subsection \<open>Rounding to the nearest double\<close>

lemma round_ties_even_of_int [simp]: "round_ties_even (of_int n) = n"
  by (simp add: round_ties_even_def)

lemma round_ties_even_error: "\<bar>of_int (round_ties_even y) - y\<bar> \<le> 1 / 2"
proof -
  have "of_int \<lfloor>y\<rfloor> \<le> y" "y < of_int \<lfloor>y\<rfloor> + 1"
    by linarith+
  then show ?thesis
    by (simp add: round_ties_even_def Let_def)
qed

lemma two_powr_of_int: "2 powr real_of_int k = 2 powi k"
  by (rule powr_real_of_int') simp_all




lemma ulp_exponent_le:
  assumes "\<bar>x\<bar> < 2 powi (e + 53)" "- 1074 \<le> e" "x \<noteq> 0"
  shows "ulp_exponent x \<le> e"
proof -
  have pos: "0 < \<bar>x\<bar>" using assms(3) by simp
  have "\<bar>x\<bar> < 2 powr real_of_int (e + 53)"
    unfolding two_powr_of_int by (rule assms(1))
  moreover have "(1::real) < 2" by simp
  ultimately have "log 2 \<bar>x\<bar> < real_of_int (e + 53)"
    by (simp only: log_less_iff [OF _ pos])
  then have "\<lfloor>log 2 \<bar>x\<bar>\<rfloor> < e + 53"
    by (simp only: floor_less_iff)
  then show ?thesis
    using assms(2) by (simp add: ulp_exponent_def)
qed

text \<open>A multiple of \<open>2\<^sup>e\<close> with a factor below \<open>2\<^sup>5\<^sup>3\<close> is a double.\<close>

lemma nearest_double_exact:
  assumes "\<bar>n\<bar> < 2 ^ 53" "- 1074 \<le> e"
  shows "nearest_double (of_int n * 2 powi e) = of_int n * 2 powi e"
proof (cases "n = 0")
  case True
  then show ?thesis by (simp add: nearest_double_def round_ties_even_def)
next
  case False
  define x :: real where "x = of_int n * 2 powi e"
  define b where "b = ulp_exponent x"
  have x0: "x \<noteq> 0" using False by (simp add: x_def)
  have "\<bar>x\<bar> = of_int \<bar>n\<bar> * 2 powi e"
    by (simp add: x_def abs_mult)
  also have "\<dots> < 2 ^ 53 * 2 powi e"
    using assms(1) by (intro mult_strict_right_mono) (simp_all flip: of_int_less_iff)
  also have "\<dots> = 2 powi (e + 53)"
    by (simp add: power_int_add)
  finally have "b \<le> e"
    unfolding b_def using assms(2) x0 by (rule ulp_exponent_le)
  then obtain k where k: "e = b + int k"
    by (metis zle_iff_zadd)
  have "x / 2 powi b = of_int (n * 2 ^ k)"
    by (simp add: x_def k power_int_add)
  then have "round_ties_even (x / 2 powi b) = n * 2 ^ k"
    by (simp only: round_ties_even_of_int)
  then have "nearest_double x = of_int (n * 2 ^ k) * 2 powi b"
    by (simp add: nearest_double_def b_def)
  also have "\<dots> = x"
    by (simp add: x_def k power_int_add)
  finally show ?thesis
    unfolding x_def .
qed

lemma nearest_double_dyadic:
  assumes "x * 2 ^ k \<in> \<int>" "\<bar>x * 2 ^ k\<bar> < 2 ^ 53" "k \<le> 1074"
  shows "nearest_double x = x"
proof -
  from assms(1) obtain n where n: "x * 2 ^ k = of_int n"
    by (auto elim: Ints_cases)
  then have x: "x = of_int n * 2 powi (- int k)"
    by (simp add: power_int_minus field_simps)
  have "\<bar>n\<bar> < 2 ^ 53"
    using assms(2) unfolding n by (simp flip: of_int_less_iff)
  then show ?thesis
    unfolding x using assms(3) by (intro nearest_double_exact) simp_all
qed

lemma fl_dyadic:
  assumes "x * 2 ^ k \<in> \<int>" "\<bar>x * 2 ^ k\<bar> < 2 ^ 53" "k \<le> 1074"
  shows "fl (Num x) = Num x"
proof -
  have "\<bar>x\<bar> * 1 \<le> \<bar>x\<bar> * 2 ^ k"
    by (intro mult_left_mono) simp_all
  then have "\<bar>x\<bar> \<le> \<bar>x * 2 ^ k\<bar>"
    by (simp add: abs_mult)
  also have "\<dots> < 2 ^ 53" by (rule assms(2))
  also have "(2::real) ^ 53 < 2 ^ 1024" by simp
  finally show ?thesis
    by (simp add: fl_def nearest_double_dyadic [OF assms])
qed

lemma fl_int: "x \<in> \<int> \<Longrightarrow> \<bar>x\<bar> < 2 ^ 53 \<Longrightarrow> fl (Num x) = Num x"
  using fl_dyadic [of x 0] by simp

lemma fl_quarter: "x * 4 \<in> \<int> \<Longrightarrow> \<bar>x * 4\<bar> < 2 ^ 53 \<Longrightarrow> fl (Num x) = Num x"
  using fl_dyadic [of x 2] by simp


lemma two_powi_floor_log:
  assumes "0 < x"
  shows "2 powi \<lfloor>log 2 x\<rfloor> \<le> x"
proof -
  have "2 powr real_of_int \<lfloor>log 2 x\<rfloor> \<le> 2 powr log 2 x"
    by (intro powr_mono) simp_all
  also have "\<dots> = x"
    using assms by simp
  finally show ?thesis
    by (simp only: two_powr_of_int)
qed

lemma nearest_double_ulp: "\<bar>nearest_double x - x\<bar> \<le> 2 powi ulp_exponent x / 2"
proof -
  define b where "b = ulp_exponent x"
  have p: "(0::real) < 2 powi b" by simp
  have "nearest_double x - x = (of_int (round_ties_even (x / 2 powi b)) - x / 2 powi b) * 2 powi b"
    by (simp add: nearest_double_def b_def algebra_simps)
  then have "\<bar>nearest_double x - x\<bar> = \<bar>of_int (round_ties_even (x / 2 powi b)) - x / 2 powi b\<bar> * 2 powi b"
    by (simp add: abs_mult)
  also have "\<dots> \<le> 1 / 2 * 2 powi b"
    by (intro mult_right_mono round_ties_even_error) simp
  finally show ?thesis
    by (simp add: b_def)
qed

lemma nearest_double_error:
  "\<bar>nearest_double x - x\<bar> \<le> unit_roundoff * \<bar>x\<bar> + tiny"
proof (cases "x = 0")
  case True
  then show ?thesis
    by (simp add: nearest_double_def round_ties_even_def tiny_def)
next
  case False
  then have pos: "0 < \<bar>x\<bar>" by simp
  define k where "k = \<lfloor>log 2 \<bar>x\<bar>\<rfloor>"
  have k: "2 powi k \<le> \<bar>x\<bar>"
    unfolding k_def using pos by (rule two_powi_floor_log)
  have u0: "0 \<le> unit_roundoff * \<bar>x\<bar>"
    by (simp add: unit_roundoff_def)
  show ?thesis
  proof (cases "k - 52 \<le> - 1074")
    case True
    then have "ulp_exponent x = - 1074"
      by (simp add: ulp_exponent_def k_def)
    then have "\<bar>nearest_double x - x\<bar> \<le> 2 powi (- 1074) / 2"
      using nearest_double_ulp [of x] by simp
    also have "\<dots> = tiny"
      by (simp add: tiny_def power_int_minus field_simps)
    finally show ?thesis using u0 by linarith
  next
    case False
    then have "ulp_exponent x = k - 52"
      by (simp add: ulp_exponent_def k_def)
    then have "\<bar>nearest_double x - x\<bar> \<le> 2 powi (k - 52) / 2"
      using nearest_double_ulp [of x] by simp
    also have "\<dots> = 2 powi k * unit_roundoff"
      by (simp add: power_int_diff unit_roundoff_def)
    also have "\<dots> \<le> \<bar>x\<bar> * unit_roundoff"
      using k by (rule mult_right_mono) (simp add: unit_roundoff_def)
    finally show ?thesis
      by (simp add: tiny_def mult.commute)
  qed
qed

lemma nearest_double_error_normal:
  assumes "1 / 2 ^ 1022 \<le> \<bar>x\<bar>"
  shows "\<bar>nearest_double x - x\<bar> \<le> unit_roundoff * \<bar>x\<bar>"
proof -
  have pos: "0 < \<bar>x\<bar>"
    using assms by (rule less_le_trans [rotated]) simp
  define k where "k = \<lfloor>log 2 \<bar>x\<bar>\<rfloor>"
  have k: "2 powi k \<le> \<bar>x\<bar>"
    unfolding k_def using pos by (rule two_powi_floor_log)
  have "2 powr real_of_int (- 1022) \<le> \<bar>x\<bar>"
    unfolding two_powr_of_int using assms by (simp add: power_int_minus field_simps)
  moreover have "(1::real) < 2" by simp
  ultimately have "real_of_int (- 1022) \<le> log 2 \<bar>x\<bar>"
    using pos by (simp only: le_log_iff)
  then have "- 1022 \<le> k"
    unfolding k_def by (simp only: le_floor_iff)
  then have "ulp_exponent x = k - 52"
    unfolding ulp_exponent_def k_def [symmetric] by simp
  then have "\<bar>nearest_double x - x\<bar> \<le> 2 powi (k - 52) / 2"
    using nearest_double_ulp [of x] by simp
  also have "\<dots> = 2 powi k * unit_roundoff"
    by (simp add: power_int_diff unit_roundoff_def)
  also have "\<dots> \<le> \<bar>x\<bar> * unit_roundoff"
    using k by (rule mult_right_mono) (simp add: unit_roundoff_def)
  finally show ?thesis
    by (simp add: mult.commute)
qed

lemma fl_NumE:
  assumes "fl a = Num y"
  obtains x where "a = Num x" "\<bar>y - x\<bar> \<le> unit_roundoff * \<bar>x\<bar> + tiny" "\<bar>y\<bar> < 2 ^ 1024"
    "1 / 2 ^ 1022 \<le> \<bar>x\<bar> \<Longrightarrow> \<bar>y - x\<bar> \<le> unit_roundoff * \<bar>x\<bar>"
proof (cases a)
  case (Num x)
  with assms have y: "y = nearest_double x" "\<bar>nearest_double x\<bar> < 2 ^ 1024"
    by (simp_all add: fl_def split: if_splits)
  show ?thesis
    using that [OF Num] nearest_double_error [of x] nearest_double_error_normal [of x] y by simp
next
  case NaN
  with assms show ?thesis by (simp add: fl_def)
qed

lemma plus_NumE:
  fixes a b :: jsnum
  assumes "a + b = Num z"
  obtains x y where "a = Num x" "b = Num y" "z = x + y"
  using assms by (cases a; cases b) (auto simp: plus_jsnum_def)

lemma minus_NumE:
  fixes a b :: jsnum
  assumes "a - b = Num z"
  obtains x y where "a = Num x" "b = Num y" "z = x - y"
  using assms by (cases a; cases b) (auto simp: minus_jsnum_def)

lemma times_NumE:
  fixes a b :: jsnum
  assumes "a * b = Num z"
  obtains x y where "a = Num x" "b = Num y" "z = x * y"
  using assms by (cases a; cases b) (auto simp: times_jsnum_def)

lemma divide_NumE:
  fixes a b :: jsnum
  assumes "a / b = Num z"
  obtains x y where "a = Num x" "b = Num y" "y \<noteq> 0" "z = x / y"
  using assms by (cases a; cases b) (auto simp: divide_jsnum_def split: if_splits)


subsection \<open>The momentum in double arithmetic\<close>

lemma ratio_error:
  fixes a M S mt u :: real
  assumes u: "0 \<le> u" "u \<le> 1 / 64" and S: "0 < S" and mt: "0 < mt"
    and M: "\<bar>M - S\<bar> \<le> u * S" and a: "\<bar>a - 2 * mt\<bar> \<le> u * (2 * mt)"
  shows "0 < M" and "0 \<le> a / M" and "\<bar>a / M - 2 * mt / S\<bar> \<le> 3 * u * (2 * mt / S)"
proof -
  define Q where "Q = 2 * mt / S"
  have Q: "0 < Q" "Q * S = 2 * mt" using S mt by (simp_all add: Q_def)
  have uS: "u * S \<le> S / 64"
    using mult_right_mono [OF u(2), of S] S by simp
  from M uS S show M0: "0 < M" by linarith
  have a0: "0 \<le> a"
    using a mult_right_mono [OF u(2), of "2 * mt"] mt by linarith
  then show "0 \<le> a / M" using M0 by simp
  have Ml: "S - u * S \<le> M" and Mh: "M \<le> S + u * S" using M by linarith+
  have al: "2 * mt - u * (2 * mt) \<le> a" and ah: "a \<le> 2 * mt + u * (2 * mt)" using a by linarith+
  have k: "0 \<le> u * (1 - 3 * u)"
    using u by (intro mult_nonneg_nonneg) simp_all
  have "a \<le> Q * S * (1 + u)"
    using ah by (simp add: Q algebra_simps)
  also have "\<dots> \<le> Q * S * ((1 + 3 * u) * (1 - u))"
    using Q(1) S k by (intro mult_left_mono) (simp_all add: algebra_simps)
  also have "\<dots> = Q * (1 + 3 * u) * (S - u * S)"
    by (simp add: algebra_simps)
  also have "\<dots> \<le> Q * (1 + 3 * u) * M"
    using Q(1) u(1) Ml by (intro mult_left_mono) simp_all
  finally have hi: "a / M \<le> Q * (1 + 3 * u)"
    using M0 by (simp add: pos_divide_le_eq)
  have "Q * (1 - 3 * u) * M \<le> Q * (1 - 3 * u) * (S + u * S)"
    using Q(1) u Mh by (intro mult_left_mono) simp_all
  also have "\<dots> = Q * S * ((1 - 3 * u) * (1 + u))"
    by (simp add: algebra_simps)
  also have "\<dots> \<le> Q * S * (1 - u)"
    using Q(1) S u by (intro mult_left_mono) (simp_all add: algebra_simps)
  also have "\<dots> \<le> a"
    using al by (simp add: Q algebra_simps)
  finally have lo: "Q * (1 - 3 * u) \<le> a / M"
    using M0 by (simp add: pos_le_divide_eq)
  from hi lo show "\<bar>a / M - 2 * mt / S\<bar> \<le> 3 * u * (2 * mt / S)"
    unfolding Q_def [symmetric] by (simp add: algebra_simps abs_le_iff)
qed


lemma scaled:
  fixes u y P E :: real
  assumes "0 \<le> u" "u \<le> 1 / 64" "\<bar>y\<bar> \<le> P + E" "0 \<le> E"
  shows "u * \<bar>y\<bar> \<le> u * P + E / 64"
proof -
  have "u * \<bar>y\<bar> \<le> u * (P + E)"
    using assms(1,3) by (rule mult_left_mono [rotated])
  also have "\<dots> = u * P + u * E"
    by (simp add: algebra_simps)
  also have "u * E \<le> 1 / 64 * E"
    using assms(2,4) by (rule mult_right_mono)
  finally show ?thesis by simp
qed

lemma velocity_error:
  fixes u \<eta> Q x q rel R T c d f v s p h r :: real
  assumes u: "0 \<le> u" "u \<le> 1 / 64" and eta: "0 \<le> \<eta>" and Q: "0 \<le> Q" "Q \<le> 2"
    and x: "\<bar>x - Q\<bar> \<le> 3 * u * Q"
    and q: "\<bar>q - x\<bar> \<le> u * \<bar>x\<bar> + \<eta>"
    and rel: "\<bar>rel - R\<bar> \<le> u * \<bar>R\<bar> + \<eta>" "\<bar>rel\<bar> \<le> T"
    and c: "\<bar>c - q * rel\<bar> \<le> u * \<bar>q * rel\<bar> + \<eta>"
    and d: "\<bar>d - c\<bar> \<le> u * \<bar>c\<bar> + \<eta>"
    and f: "\<bar>f - (v + s * d)\<bar> \<le> u * \<bar>v + s * d\<bar> + \<eta>" and s: "\<bar>s\<bar> = 1"
    and p: "\<bar>p - f\<bar> \<le> h" "0 \<le> h"
    and r: "\<bar>r - p\<bar> \<le> u * \<bar>p\<bar> + \<eta>"
  shows "\<bar>r - (v + s * (Q * R))\<bar>
         \<le> h + u * h + 3 * (u * \<bar>v\<bar>) + 15 * (u * (Q * \<bar>R\<bar>)) + 5 * (\<eta> * T) + 11 * \<eta>"
proof -
  define aR where "aR = \<bar>R\<bar>"
  define ar where "ar = \<bar>rel\<bar>"
  define av where "av = \<bar>v\<bar>"
  define P where "P = Q * aR"
  define uP where "uP = u * P"
  define uQ where "uQ = u * Q"
  define t where "t = \<eta> * T"
  define uv where "uv = u * av"
  define uh where "uh = u * h"
  define qr where "qr = q * rel"
  define QR where "QR = Q * R"
  define sd where "sd = s * d"
  define F where "F = v + s * QR"
  have aR0: "0 \<le> aR" and ar0: "0 \<le> ar" and av0: "0 \<le> av"
    by (simp_all add: aR_def ar_def av_def)
  have T0: "0 \<le> T" using rel(2) by argo
  have P0: "0 \<le> P" unfolding P_def using Q(1) aR0 by simp
  have uP0: "0 \<le> uP" unfolding uP_def using u(1) P0 by simp
  have uQ0: "0 \<le> uQ" unfolding uQ_def using u(1) Q(1) by simp
  have t0: "0 \<le> t" unfolding t_def using eta T0 by simp
  have uv0: "0 \<le> uv" unfolding uv_def using u(1) av0 by simp
  have uh0: "0 \<le> uh" unfolding uh_def using u(1) p(2) by simp
  have uQ2: "uQ \<le> 1 / 32"
  proof -
    have "u * Q \<le> 1 / 64 * 2"
      using u Q by (intro mult_mono) simp_all
    then show ?thesis by (simp add: uQ_def)
  qed
  have uuP: "u * uP \<le> uP / 64"
    using mult_right_mono [OF u(2) uP0] by simp
  have uQR: "uQ * aR = uP"
    by (simp add: uQ_def uP_def P_def)
  have uQeta: "uQ * \<eta> \<le> \<eta> / 32"
    using mult_right_mono [OF uQ2 eta] by simp
  have x': "\<bar>x - Q\<bar> \<le> 3 * uQ"
    using x by (simp add: uQ_def mult.assoc)
  have x1: "\<bar>x\<bar> \<le> Q + 3 * uQ"
    using x' Q(1) by argo
  have "u * \<bar>x\<bar> \<le> u * Q + 3 * uQ / 64"
    using u x1 by (rule scaled) (use uQ0 in simp)
  then have ux: "u * \<bar>x\<bar> \<le> uQ + 3 * uQ / 64"
    by (simp only: uQ_def)
  have qQ: "\<bar>q - Q\<bar> \<le> 5 * uQ + \<eta>"
  proof -
    have "\<bar>q - Q\<bar> \<le> \<bar>q - x\<bar> + \<bar>x - Q\<bar>" by argo
    also have "\<dots> \<le> (uQ + 3 * uQ / 64 + \<eta>) + 3 * uQ"
      by (rule add_mono) (use q ux x' in argo)+
    finally show ?thesis using uQ0 by argo
  qed
  have rel': "\<bar>rel - R\<bar> \<le> u * aR + \<eta>"
    using rel(1) by (simp only: aR_def)
  have relR: "ar \<le> aR + u * aR + \<eta>"
    using rel' unfolding ar_def aR_def by argo
  have uQrel: "uQ * ar \<le> uP + uP / 64 + \<eta> / 32"
  proof -
    have "uQ * ar \<le> uQ * (aR + u * aR + \<eta>)"
      using relR uQ0 by (rule mult_left_mono)
    also have "\<dots> = uP + u * uP + uQ * \<eta>"
      unfolding uQR [symmetric] by (simp add: algebra_simps)
    finally show ?thesis using uuP uQeta by argo
  qed
  have etarel: "\<eta> * ar \<le> t"
    unfolding t_def ar_def using rel(2) eta by (rule mult_left_mono)
  have "\<bar>(q - Q) * rel\<bar> = \<bar>q - Q\<bar> * ar"
    unfolding ar_def by (rule abs_mult)
  also have "\<dots> \<le> (5 * uQ + \<eta>) * ar"
    using qQ ar0 by (rule mult_right_mono)
  also have "\<dots> = 5 * (uQ * ar) + \<eta> * ar"
    by (simp add: algebra_simps)
  also have "\<dots> \<le> 5 * (uP + uP / 64 + \<eta> / 32) + t"
    by (intro add_mono mult_left_mono uQrel etarel) simp
  finally have a1: "\<bar>(q - Q) * rel\<bar> \<le> 5 * (uP + uP / 64 + \<eta> / 32) + t" .
  have "\<bar>Q * (rel - R)\<bar> = Q * \<bar>rel - R\<bar>"
    using Q(1) by (simp add: abs_mult)
  also have "\<dots> \<le> Q * (u * aR + \<eta>)"
    using rel' Q(1) by (rule mult_left_mono)
  also have "\<dots> = uP + Q * \<eta>"
    by (simp add: uP_def P_def algebra_simps)
  also have "Q * \<eta> \<le> 2 * \<eta>"
    using Q(2) eta by (rule mult_right_mono)
  finally have a2: "\<bar>Q * (rel - R)\<bar> \<le> uP + 2 * \<eta>"
    by simp
  have "qr - QR = (q - Q) * rel + Q * (rel - R)"
    by (simp add: qr_def QR_def algebra_simps)
  then have "\<bar>qr - QR\<bar> \<le> \<bar>(q - Q) * rel\<bar> + \<bar>Q * (rel - R)\<bar>"
    by (simp only: abs_triangle_ineq)
  also have "\<dots> \<le> (5 * (uP + uP / 64 + \<eta> / 32) + t) + (uP + 2 * \<eta>)"
    using a1 a2 by (rule add_mono)
  finally have e1: "\<bar>qr - QR\<bar> \<le> 7 * uP + t + 3 * \<eta>"
    using uP0 eta by argo
  have aQR: "\<bar>QR\<bar> = P"
    using Q(1) by (simp add: QR_def P_def aR_def abs_mult)
  have "\<bar>qr\<bar> \<le> P + (7 * uP + t + 3 * \<eta>)"
    using e1 aQR by argo
  then have "u * \<bar>qr\<bar> \<le> u * P + (7 * uP + t + 3 * \<eta>) / 64"
    using u by (intro scaled) (use uP0 t0 eta in simp_all)
  then have uqr: "u * \<bar>qr\<bar> \<le> uP + (7 * uP + t + 3 * \<eta>) / 64"
    by (simp only: uP_def)
  define cb where "cb = u * \<bar>qr\<bar>"
  have c': "\<bar>c - qr\<bar> \<le> cb + \<eta>"
    using c by (simp only: qr_def cb_def)
  have e2: "\<bar>c - QR\<bar> \<le> 9 * uP + 2 * t + 5 * \<eta>"
    using c' uqr [folded cb_def] e1 uP0 t0 eta by argo
  have "\<bar>c\<bar> \<le> P + (9 * uP + 2 * t + 5 * \<eta>)"
    using e2 aQR by argo
  then have "u * \<bar>c\<bar> \<le> u * P + (9 * uP + 2 * t + 5 * \<eta>) / 64"
    using u by (intro scaled) (use uP0 t0 eta in simp_all)
  then have uc: "u * \<bar>c\<bar> \<le> uP + (9 * uP + 2 * t + 5 * \<eta>) / 64"
    by (simp only: uP_def)
  define db where "db = u * \<bar>c\<bar>"
  have d': "\<bar>d - c\<bar> \<le> db + \<eta>"
    using d by (simp only: db_def)
  have e3: "\<bar>d - QR\<bar> \<le> 11 * uP + 3 * t + 7 * \<eta>"
    using d' uc [folded db_def] e2 uP0 t0 eta by argo
  have sdQR: "\<bar>sd - s * QR\<bar> = \<bar>d - QR\<bar>"
  proof -
    have "sd - s * QR = s * (d - QR)" by (simp add: sd_def algebra_simps)
    then show ?thesis using s by (simp add: abs_mult)
  qed
  have sQR: "\<bar>s * QR\<bar> = P"
    using s aQR by (simp add: abs_mult)
  define sQ where "sQ = s * QR"
  have "\<bar>v + sd\<bar> \<le> (av + P) + (11 * uP + 3 * t + 7 * \<eta>)"
    using e3 sdQR [folded sQ_def] sQR [folded sQ_def] unfolding av_def by argo
  then have "u * \<bar>v + sd\<bar> \<le> u * (av + P) + (11 * uP + 3 * t + 7 * \<eta>) / 64"
    using u by (intro scaled) (use uP0 t0 eta in simp_all)
  then have uf: "u * \<bar>v + sd\<bar> \<le> uv + uP + (11 * uP + 3 * t + 7 * \<eta>) / 64"
    by (simp add: uv_def uP_def algebra_simps)
  define fb where "fb = u * \<bar>v + sd\<bar>"
  have f': "\<bar>f - (v + sd)\<bar> \<le> fb + \<eta>"
    using f by (simp only: sd_def fb_def)
  have e4: "\<bar>f - (v + sQ)\<bar> \<le> uv + 13 * uP + 4 * t + 9 * \<eta>"
    using f' uf [folded fb_def] e3 sdQR [folded sQ_def] uP0 t0 eta by argo
  have "\<bar>p\<bar> \<le> (av + P + h) + (uv + 13 * uP + 4 * t + 9 * \<eta>)"
    using e4 p(1) sQR [folded sQ_def] unfolding av_def by argo
  then have "u * \<bar>p\<bar> \<le> u * (av + P + h) + (uv + 13 * uP + 4 * t + 9 * \<eta>) / 64"
    using u by (intro scaled) (use uP0 t0 eta uv0 in simp_all)
  then have up: "u * \<bar>p\<bar> \<le> uv + uP + uh + (uv + 13 * uP + 4 * t + 9 * \<eta>) / 64"
    by (simp add: uv_def uP_def uh_def algebra_simps)
  define pb where "pb = u * \<bar>p\<bar>"
  have r': "\<bar>r - p\<bar> \<le> pb + \<eta>"
    using r by (simp only: pb_def)
  have "\<bar>r - (v + sQ)\<bar> \<le> h + uh + 3 * uv + 15 * uP + 5 * t + 11 * \<eta>"
    using r' up [folded pb_def] p(1) e4 uP0 t0 eta uv0 by argo
  then show ?thesis
    by (simp only: uv_def uP_def P_def t_def uh_def sQ_def QR_def aR_def av_def)
qed


lemma parseFloat_toFixed_NumE:
  assumes "parseFloat_toFixed a d = Num p"
  obtains f where "a = Num f" "\<bar>p - f\<bar> \<le> 1 / (2 * 10 ^ d)"
proof (cases a)
  case (Num f)
  with assms have "p = f \<or> p = round_half_away f d"
    by (auto simp: parseFloat_toFixed_def split: if_splits)
  then have "\<bar>p - f\<bar> \<le> 1 / (2 * 10 ^ d)"
    using round_half_away_error [of f d] by auto
  with Num show ?thesis by (rule that)
next
  case NaN
  with assms show ?thesis by (simp add: parseFloat_toFixed_def)
qed

lemma roundoff_small: "0 \<le> unit_roundoff" "unit_roundoff \<le> 1 / 64" "0 \<le> tiny"
  by (simp_all add: unit_roundoff_def tiny_def)

lemma transfer_NumE:
  assumes d: "fl (fl (fl (fl (Num 2 * Num mt) / fl (Num m1 + Num m2)) * fl (Num va - Num vb)) * Num 1)
              = Num d"
    and m: "1 / 2 ^ 1022 \<le> m1" "1 / 2 ^ 1022 \<le> m2" "mt = m1 \<or> mt = m2"
  obtains x q rel c where
    "\<bar>x - 2 * mt / (m1 + m2)\<bar> \<le> 3 * unit_roundoff * (2 * mt / (m1 + m2))"
    "\<bar>q - x\<bar> \<le> unit_roundoff * \<bar>x\<bar> + tiny"
    "\<bar>rel - (va - vb)\<bar> \<le> unit_roundoff * \<bar>va - vb\<bar> + tiny" "\<bar>rel\<bar> \<le> 2 ^ 1024"
    "\<bar>c - q * rel\<bar> \<le> unit_roundoff * \<bar>q * rel\<bar> + tiny"
    "\<bar>d - c\<bar> \<le> unit_roundoff * \<bar>c\<bar> + tiny"
proof -
  have low: "(0::real) < 1 / 2 ^ 1022" by simp
  have pos: "0 < m1" "0 < m2" "0 < mt"
    using m low by auto
  from d obtain c1 where c1: "fl (fl (fl (Num 2 * Num mt) / fl (Num m1 + Num m2)) * fl (Num va - Num vb)) * Num 1
      = Num c1" and dc: "\<bar>d - c1\<bar> \<le> unit_roundoff * \<bar>c1\<bar> + tiny"
    by (rule fl_NumE)
  from c1 obtain c where c: "fl (fl (fl (Num 2 * Num mt) / fl (Num m1 + Num m2)) * fl (Num va - Num vb)) = Num c"
    and "c1 = c * 1"
    by (auto elim: times_NumE)
  then have c1c: "c1 = c" by simp
  from c obtain qr where qr: "fl (fl (Num 2 * Num mt) / fl (Num m1 + Num m2)) * fl (Num va - Num vb) = Num qr"
    and cqr: "\<bar>c - qr\<bar> \<le> unit_roundoff * \<bar>qr\<bar> + tiny"
    by (rule fl_NumE)
  from qr obtain q rel where q: "fl (fl (Num 2 * Num mt) / fl (Num m1 + Num m2)) = Num q"
    and rel: "fl (Num va - Num vb) = Num rel" and qrv: "qr = q * rel"
    by (rule times_NumE)
  from rel obtain R where "Num va - Num vb = Num R"
    and relR: "\<bar>rel - R\<bar> \<le> unit_roundoff * \<bar>R\<bar> + tiny" and relT: "\<bar>rel\<bar> < 2 ^ 1024"
    by (rule fl_NumE)
  then have R: "R = va - vb" by simp
  from q obtain x where x: "fl (Num 2 * Num mt) / fl (Num m1 + Num m2) = Num x"
    and qx: "\<bar>q - x\<bar> \<le> unit_roundoff * \<bar>x\<bar> + tiny"
    by (rule fl_NumE)
  from x obtain a M where a: "fl (Num 2 * Num mt) = Num a" and M: "fl (Num m1 + Num m2) = Num M"
    and xv: "x = a / M"
    by (rule divide_NumE)
  from a have a': "fl (Num (2 * mt)) = Num a" by simp
  have "1 / 2 ^ 1022 \<le> \<bar>2 * mt\<bar>"
    using m pos by auto
  with a' have ae: "\<bar>a - 2 * mt\<bar> \<le> unit_roundoff * (2 * mt)"
    using pos(3) by (auto elim!: fl_NumE)
  from M have M': "fl (Num (m1 + m2)) = Num M" by simp
  have "1 / 2 ^ 1022 \<le> \<bar>m1 + m2\<bar>"
    using m pos by auto
  with M' have Me: "\<bar>M - (m1 + m2)\<bar> \<le> unit_roundoff * (m1 + m2)"
    using pos(1,2) by (auto elim!: fl_NumE)
  have S: "0 < m1 + m2" using pos by simp
  have xe: "\<bar>x - 2 * mt / (m1 + m2)\<bar> \<le> 3 * unit_roundoff * (2 * mt / (m1 + m2))"
    unfolding xv by (rule ratio_error(3) [OF roundoff_small(1,2) S pos(3) Me ae])
  show ?thesis
    using that [OF xe qx relR [unfolded R] _ cqr [unfolded qrv] dc [unfolded c1c]] relT by simp
qed


lemma component_error:
  assumes r: "parseFloat_toFixed_double
                (fl (Num v + Num s *
                       fl (fl (fl (fl (Num 2 * Num mt) / fl (Num m1 + Num m2)) * fl (Num va - Num vb))
                           * Num 1))) 3 = Num r"
    and s: "\<bar>s\<bar> = 1"
    and m: "1 / 2 ^ 1022 \<le> m1" "1 / 2 ^ 1022 \<le> m2" "mt = m1 \<or> mt = m2"
  shows "\<bar>r - (v + s * (2 * mt / (m1 + m2) * (va - vb)))\<bar>
         \<le> 1 / 2000 + unit_roundoff * (1 / 2000) + 3 * (unit_roundoff * \<bar>v\<bar>)
           + 15 * (unit_roundoff * (2 * mt / (m1 + m2) * \<bar>va - vb\<bar>))
           + 5 * (tiny * 2 ^ 1024) + 11 * tiny"
proof -
  have low: "(0::real) < 1 / 2 ^ 1022" by simp
  have pos: "0 < m1" "0 < m2" "0 < mt"
    using m low by auto
  have Q: "0 \<le> 2 * mt / (m1 + m2)" "2 * mt / (m1 + m2) \<le> 2"
    using pos m(3) by (auto simp: field_simps)
  from r obtain p where p: "parseFloat_toFixed
                (fl (Num v + Num s *
                       fl (fl (fl (fl (Num 2 * Num mt) / fl (Num m1 + Num m2)) * fl (Num va - Num vb))
                           * Num 1))) 3 = Num p"
    and rp: "\<bar>r - p\<bar> \<le> unit_roundoff * \<bar>p\<bar> + tiny"
    unfolding parseFloat_toFixed_double_def by (rule fl_NumE)
  from p obtain f where f: "fl (Num v + Num s *
                       fl (fl (fl (fl (Num 2 * Num mt) / fl (Num m1 + Num m2)) * fl (Num va - Num vb))
                           * Num 1)) = Num f"
    and pf: "\<bar>p - f\<bar> \<le> 1 / (2 * 10 ^ 3)"
    by (rule parseFloat_toFixed_NumE)
  from f obtain y where y: "Num v + Num s *
                       fl (fl (fl (fl (Num 2 * Num mt) / fl (Num m1 + Num m2)) * fl (Num va - Num vb))
                           * Num 1) = Num y"
    and fy: "\<bar>f - y\<bar> \<le> unit_roundoff * \<bar>y\<bar> + tiny"
    by (rule fl_NumE)
  from y obtain z where z: "Num s *
                       fl (fl (fl (fl (Num 2 * Num mt) / fl (Num m1 + Num m2)) * fl (Num va - Num vb))
                           * Num 1) = Num z" and yz: "y = v + z"
    by (auto elim: plus_NumE)
  from z obtain d where d: "fl (fl (fl (fl (Num 2 * Num mt) / fl (Num m1 + Num m2)) * fl (Num va - Num vb))
                           * Num 1) = Num d" and zd: "z = s * d"
    by (auto elim: times_NumE)
  from d m obtain x q rel c where e:
    "\<bar>x - 2 * mt / (m1 + m2)\<bar> \<le> 3 * unit_roundoff * (2 * mt / (m1 + m2))"
    "\<bar>q - x\<bar> \<le> unit_roundoff * \<bar>x\<bar> + tiny"
    "\<bar>rel - (va - vb)\<bar> \<le> unit_roundoff * \<bar>va - vb\<bar> + tiny" "\<bar>rel\<bar> \<le> 2 ^ 1024"
    "\<bar>c - q * rel\<bar> \<le> unit_roundoff * \<bar>q * rel\<bar> + tiny"
    "\<bar>d - c\<bar> \<le> unit_roundoff * \<bar>c\<bar> + tiny"
    by (rule transfer_NumE)
  have pf': "\<bar>p - f\<bar> \<le> 1 / 2000" using pf by simp
  show ?thesis
    by (rule velocity_error [OF roundoff_small Q e fy [unfolded yz zd] s pf' _ rp]) simp
qed

lemma reduced_mass_bound:
  fixes m1 m2 v1 v2 :: real
  assumes "0 < m1" "0 < m2"
  shows "2 * m1 * m2 / (m1 + m2) * \<bar>v1 - v2\<bar> \<le> 2 * (m1 * \<bar>v1\<bar> + m2 * \<bar>v2\<bar>)"
proof -
  define k where "k = 2 * m1 * m2 / (m1 + m2)"
  have k: "0 \<le> k" "k \<le> 2 * m1" "k \<le> 2 * m2"
    using assms by (simp_all add: k_def field_simps)
  have "k * \<bar>v1 - v2\<bar> \<le> k * (\<bar>v1\<bar> + \<bar>v2\<bar>)"
    using k(1) by (intro mult_left_mono) simp_all
  also have "\<dots> = k * \<bar>v1\<bar> + k * \<bar>v2\<bar>"
    by (simp add: algebra_simps)
  also have "\<dots> \<le> 2 * m1 * \<bar>v1\<bar> + 2 * m2 * \<bar>v2\<bar>"
    using k(2,3) by (intro add_mono mult_right_mono) simp_all
  finally have "k * \<bar>v1 - v2\<bar> \<le> 2 * (m1 * \<bar>v1\<bar> + m2 * \<bar>v2\<bar>)"
    by simp
  then show ?thesis
    unfolding k_def .
qed

lemma roundoff_total:
  "1 / 2000 + unit_roundoff * (1 / 2000) + 5 * (tiny * 2 ^ 1024) + 11 * tiny \<le> 1 / 2000 + 1 / 10 ^ 14"
  "63 * unit_roundoff \<le> 1 / 10 ^ 14"
  by (simp_all add: unit_roundoff_def tiny_def)

lemma axis_momentum_error:
  fixes m1 m2 v1 v2 r1 r2 :: real
  assumes m: "0 < m1" "0 < m2"
    and r1: "\<bar>r1 - (v1 + (- 1) * (2 * m2 / (m1 + m2) * (v1 - v2)))\<bar>
         \<le> 1 / 2000 + unit_roundoff * (1 / 2000) + 3 * (unit_roundoff * \<bar>v1\<bar>)
           + 15 * (unit_roundoff * (2 * m2 / (m1 + m2) * \<bar>v1 - v2\<bar>))
           + 5 * (tiny * 2 ^ 1024) + 11 * tiny"
    and r2: "\<bar>r2 - (v2 + 1 * (2 * m1 / (m1 + m2) * (v1 - v2)))\<bar>
         \<le> 1 / 2000 + unit_roundoff * (1 / 2000) + 3 * (unit_roundoff * \<bar>v2\<bar>)
           + 15 * (unit_roundoff * (2 * m1 / (m1 + m2) * \<bar>v1 - v2\<bar>))
           + 5 * (tiny * 2 ^ 1024) + 11 * tiny"
  shows "\<bar>(m1 * r1 + m2 * r2) - (m1 * v1 + m2 * v2)\<bar>
         \<le> (1 / 2000 + 1 / 10 ^ 14) * (m1 + m2) + 1 / 10 ^ 14 * (m1 * \<bar>v1\<bar> + m2 * \<bar>v2\<bar>)"
proof -
  define A where "A = 1 / 2000 + unit_roundoff * (1 / 2000) + 5 * (tiny * 2 ^ 1024) + 11 * tiny"
  define W where "W = m1 * \<bar>v1\<bar> + m2 * \<bar>v2\<bar>"
  define K where "K = 2 * m1 * m2 / (m1 + m2) * \<bar>v1 - v2\<bar>"
  define F1 where "F1 = v1 + (- 1) * (2 * m2 / (m1 + m2) * (v1 - v2))"
  define F2 where "F2 = v2 + 1 * (2 * m1 / (m1 + m2) * (v1 - v2))"
  define a1 where "a1 = m1 * \<bar>v1\<bar>"
  define a2 where "a2 = m2 * \<bar>v2\<bar>"
  have W0: "0 \<le> W" "0 \<le> a1" "0 \<le> a2" "W = a1 + a2"
    using m by (simp_all add: W_def a1_def a2_def)
  have K: "K \<le> 2 * W"
    unfolding K_def W_def using m by (rule reduced_mass_bound)
  have u: "0 \<le> unit_roundoff" by (rule roundoff_small)
  have cons: "m1 * F1 + m2 * F2 = m1 * v1 + m2 * v2"
    using axis_momentum [of m1 v1 m2 v2 1] by (simp add: F1_def F2_def)
  have b1: "\<bar>r1 - F1\<bar> \<le> A + 3 * (unit_roundoff * \<bar>v1\<bar>)
             + 15 * (unit_roundoff * (2 * m2 / (m1 + m2) * \<bar>v1 - v2\<bar>))"
    using r1 by (simp add: A_def F1_def)
  have b2: "\<bar>r2 - F2\<bar> \<le> A + 3 * (unit_roundoff * \<bar>v2\<bar>)
             + 15 * (unit_roundoff * (2 * m1 / (m1 + m2) * \<bar>v1 - v2\<bar>))"
    using r2 by (simp add: A_def F2_def)
  have "\<bar>m1 * (r1 - F1)\<bar> = m1 * \<bar>r1 - F1\<bar>"
    using m(1) by (simp add: abs_mult)
  also have "\<dots> \<le> m1 * (A + 3 * (unit_roundoff * \<bar>v1\<bar>)
             + 15 * (unit_roundoff * (2 * m2 / (m1 + m2) * \<bar>v1 - v2\<bar>)))"
    using b1 m(1) by (intro mult_left_mono) simp_all
  also have "\<dots> = A * m1 + 3 * (unit_roundoff * a1) + 15 * (unit_roundoff * K)"
    by (simp add: K_def a1_def algebra_simps)
  finally have c1: "\<bar>m1 * (r1 - F1)\<bar> \<le> A * m1 + 3 * (unit_roundoff * a1) + 15 * (unit_roundoff * K)" .
  have "\<bar>m2 * (r2 - F2)\<bar> = m2 * \<bar>r2 - F2\<bar>"
    using m(2) by (simp add: abs_mult)
  also have "\<dots> \<le> m2 * (A + 3 * (unit_roundoff * \<bar>v2\<bar>)
             + 15 * (unit_roundoff * (2 * m1 / (m1 + m2) * \<bar>v1 - v2\<bar>)))"
    using b2 m(2) by (intro mult_left_mono) simp_all
  also have "\<dots> = A * m2 + 3 * (unit_roundoff * a2) + 15 * (unit_roundoff * K)"
    by (simp add: K_def a2_def algebra_simps)
  finally have c2: "\<bar>m2 * (r2 - F2)\<bar> \<le> A * m2 + 3 * (unit_roundoff * a2) + 15 * (unit_roundoff * K)" .
  have uK: "unit_roundoff * K \<le> unit_roundoff * (2 * W)"
    using K u by (rule mult_left_mono)
  have "(m1 * r1 + m2 * r2) - (m1 * v1 + m2 * v2) = m1 * (r1 - F1) + m2 * (r2 - F2)"
    unfolding cons [symmetric] by (simp add: algebra_simps)
  then have "\<bar>(m1 * r1 + m2 * r2) - (m1 * v1 + m2 * v2)\<bar> \<le> \<bar>m1 * (r1 - F1)\<bar> + \<bar>m2 * (r2 - F2)\<bar>"
    by (simp only: abs_triangle_ineq)
  also have "\<dots> \<le> (A * m1 + 3 * (unit_roundoff * a1) + 15 * (unit_roundoff * K))
                  + (A * m2 + 3 * (unit_roundoff * a2) + 15 * (unit_roundoff * K))"
    using c1 c2 by (rule add_mono)
  also have "\<dots> = A * (m1 + m2) + 3 * (unit_roundoff * W) + 30 * (unit_roundoff * K)"
    by (simp add: W0(4) algebra_simps)
  also have "\<dots> \<le> A * (m1 + m2) + 3 * (unit_roundoff * W) + 30 * (unit_roundoff * (2 * W))"
    by (rule add_left_mono, rule mult_left_mono [OF uK]) simp
  also have "\<dots> = A * (m1 + m2) + 63 * unit_roundoff * W"
    by (simp add: algebra_simps)
  also have "\<dots> \<le> (1 / 2000 + 1 / 10 ^ 14) * (m1 + m2) + 1 / 10 ^ 14 * W"
    using roundoff_total [folded A_def] m W0(1) by (intro add_mono mult_right_mono) simp_all
  finally show ?thesis
    unfolding W_def .
qed

lemma minus_as_plus:
  fixes a b :: jsnum
  shows "a - b = a + Num (- 1) * b"
  by (cases a; cases b) (simp_all add: minus_jsnum_def plus_jsnum_def times_jsnum_def)

lemma plus_as_plus:
  fixes a b :: jsnum
  shows "a + b = a + Num 1 * b"
  by (cases a; cases b) (simp_all add: plus_jsnum_def times_jsnum_def)

lemma calculateCollision_double_collide:
  assumes "fl (Num (mass1_of (spread obj1 obj2))) = m1" "double_vec (velocity1_of (spread obj1 obj2)) = u1"
    "fl (Num (mass2_of (spread obj1 obj2))) = m2" "double_vec (velocity2_of (spread obj1 obj2)) = u2"
    "fl (Num (restitution_of (spread obj1 obj2))) = e"
  shows "calculateCollision_double obj1 obj2 = collide_double m1 u1 m2 u2 e"
  using assms by (simp add: calculateCollision_double_def Let_def)

lemma fl_one: "fl (Num 1) = Num 1"
  by (rule fl_int) simp_all

lemma collide_double_momentum:
  assumes m: "1 / 2 ^ 1022 \<le> m1" "1 / 2 ^ 1022 \<le> m2"
    and r1: "object1FinalVelocity
               (collide_double (Num m1) \<lparr> vec_x = Num v1x, vec_y = Num v1y \<rparr>
                  (Num m2) \<lparr> vec_x = Num v2x, vec_y = Num v2y \<rparr> (Num 1))
             = \<lparr> vec_x = Num r1x, vec_y = Num r1y \<rparr>"
    and r2: "object2FinalVelocity
               (collide_double (Num m1) \<lparr> vec_x = Num v1x, vec_y = Num v1y \<rparr>
                  (Num m2) \<lparr> vec_x = Num v2x, vec_y = Num v2y \<rparr> (Num 1))
             = \<lparr> vec_x = Num r2x, vec_y = Num r2y \<rparr>"
  shows "\<bar>(m1 * r1x + m2 * r2x) - (m1 * v1x + m2 * v2x)\<bar>
           \<le> (1 / 2000 + 1 / 10 ^ 14) * (m1 + m2) + 1 / 10 ^ 14 * (m1 * \<bar>v1x\<bar> + m2 * \<bar>v2x\<bar>)"
    and "\<bar>(m1 * r1y + m2 * r2y) - (m1 * v1y + m2 * v2y)\<bar>
           \<le> (1 / 2000 + 1 / 10 ^ 14) * (m1 + m2) + 1 / 10 ^ 14 * (m1 * \<bar>v1y\<bar> + m2 * \<bar>v2y\<bar>)"
proof -
  have low: "(0::real) < 1 / 2 ^ 1022" by simp
  have pos: "0 < m1" "0 < m2"
    using m low by auto
  from r1 have x1: "parseFloat_toFixed_double
                (fl (Num v1x + Num (- 1) *
                       fl (fl (fl (fl (Num 2 * Num m2) / fl (Num m1 + Num m2)) * fl (Num v1x - Num v2x))
                           * Num 1))) 3 = Num r1x"
    and y1: "parseFloat_toFixed_double
                (fl (Num v1y + Num (- 1) *
                       fl (fl (fl (fl (Num 2 * Num m2) / fl (Num m1 + Num m2)) * fl (Num v1y - Num v2y))
                           * Num 1))) 3 = Num r1y"
    unfolding minus_as_plus [symmetric]
    by (simp_all add: collide_double_def v1Final_double_def relativeVelocity_double_def Let_def)
  from r2 have x2: "parseFloat_toFixed_double
                (fl (Num v2x + Num 1 *
                       fl (fl (fl (fl (Num 2 * Num m1) / fl (Num m1 + Num m2)) * fl (Num v1x - Num v2x))
                           * Num 1))) 3 = Num r2x"
    and y2: "parseFloat_toFixed_double
                (fl (Num v2y + Num 1 *
                       fl (fl (fl (fl (Num 2 * Num m1) / fl (Num m1 + Num m2)) * fl (Num v1y - Num v2y))
                           * Num 1))) 3 = Num r2y"
    unfolding plus_as_plus [symmetric]
    by (simp_all add: collide_double_def v2Final_double_def relativeVelocity_double_def Let_def)
  show "\<bar>(m1 * r1x + m2 * r2x) - (m1 * v1x + m2 * v2x)\<bar>
           \<le> (1 / 2000 + 1 / 10 ^ 14) * (m1 + m2) + 1 / 10 ^ 14 * (m1 * \<bar>v1x\<bar> + m2 * \<bar>v2x\<bar>)"
    by (rule axis_momentum_error [OF pos component_error [OF x1 _ m] component_error [OF x2 _ m]])
      simp_all
  show "\<bar>(m1 * r1y + m2 * r2y) - (m1 * v1y + m2 * v2y)\<bar>
           \<le> (1 / 2000 + 1 / 10 ^ 14) * (m1 + m2) + 1 / 10 ^ 14 * (m1 * \<bar>v1y\<bar> + m2 * \<bar>v2y\<bar>)"
    by (rule axis_momentum_error [OF pos component_error [OF y1 _ m] component_error [OF y2 _ m]])
      simp_all
qed

lemma fast_objects:
  "mass1_of (spread fast_object1 fast_object2) = 5"
  "velocity1_of (spread fast_object1 fast_object2) = \<lparr> vec_x = 62812773, vec_y = 0 \<rparr>"
  "mass2_of (spread fast_object1 fast_object2) = 3"
  "velocity2_of (spread fast_object1 fast_object2) = \<lparr> vec_x = 92293005, vec_y = 0 \<rparr>"
  "restitution_of (spread fast_object1 fast_object2) = 1"
  by (simp_all add: dest_defs fast_object1_def fast_object2_def)

text \<open>
  The final velocities of the two bodies are whole numbers, and every step that leads to
  them is exact.
\<close>

lemma fast_velocities:
  "v1Final_double (Num 5) \<lparr> vec_x = Num 62812773, vec_y = Num 0 \<rparr> (Num 3)
     \<lparr> vec_x = Num 92293005, vec_y = Num 0 \<rparr> (Num 1) = \<lparr> vec_x = Num 84922947, vec_y = Num 0 \<rparr>"
  "v2Final_double (Num 5) \<lparr> vec_x = Num 62812773, vec_y = Num 0 \<rparr> (Num 3)
     \<lparr> vec_x = Num 92293005, vec_y = Num 0 \<rparr> (Num 1) = \<lparr> vec_x = Num 55442715, vec_y = Num 0 \<rparr>"
  by (simp_all add: v1Final_double_def v2Final_double_def relativeVelocity_double_def Let_def fl_quarter)

text \<open>
  Claim C3, amended. With restitution 1 and masses \<open>m1, m2\<close> that are doubles of the
  normal range, whenever the velocities that \<^verbatim>\<open>calculateCollision\<close> returns are finite,
  their momentum along each axis differs from the momentum \<open>m1 v1 + m2 v2\<close> before the
  collision by at most \<open>(0.0005 + 10\<^sup>-\<^sup>1\<^sup>4) (m1 + m2) + 10\<^sup>-\<^sup>1\<^sup>4 (m1 \<bar>v1\<bar> + m2 \<bar>v2\<bar>)\<close>:
  0.0005 per unit of mass for the rounding of the output to three decimals, and a relative
  error of \<open>10\<^sup>-\<^sup>1\<^sup>4\<close> for the double arithmetic. The masses and velocities are the doubles
  read from the request.
\<close>
theorem collision_momentum_conserved:
  assumes "fl (Num (mass1_of (spread obj1 obj2))) = Num m1"
    "double_vec (velocity1_of (spread obj1 obj2)) = \<lparr> vec_x = Num v1x, vec_y = Num v1y \<rparr>"
    "fl (Num (mass2_of (spread obj1 obj2))) = Num m2"
    "double_vec (velocity2_of (spread obj1 obj2)) = \<lparr> vec_x = Num v2x, vec_y = Num v2y \<rparr>"
    "restitution_of (spread obj1 obj2) = 1"
    and "1 / 2 ^ 1022 \<le> m1" "1 / 2 ^ 1022 \<le> m2"
    and "object1FinalVelocity (calculateCollision_double obj1 obj2) = \<lparr> vec_x = Num r1x, vec_y = Num r1y \<rparr>"
    and "object2FinalVelocity (calculateCollision_double obj1 obj2) = \<lparr> vec_x = Num r2x, vec_y = Num r2y \<rparr>"
  shows "\<bar>(m1 * r1x + m2 * r2x) - (m1 * v1x + m2 * v2x)\<bar>
           \<le> (1 / 2000 + 1 / 10 ^ 14) * (m1 + m2) + 1 / 10 ^ 14 * (m1 * \<bar>v1x\<bar> + m2 * \<bar>v2x\<bar>)
       \<and> \<bar>(m1 * r1y + m2 * r2y) - (m1 * v1y + m2 * v2y)\<bar>
           \<le> (1 / 2000 + 1 / 10 ^ 14) * (m1 + m2) + 1 / 10 ^ 14 * (m1 * \<bar>v1y\<bar> + m2 * \<bar>v2y\<bar>)"
proof -
  have e: "fl (Num (restitution_of (spread obj1 obj2))) = Num 1"
    unfolding assms(5) by (rule fl_one)
  note c = calculateCollision_double_collide [OF assms(1-4) e]
  show ?thesis
    using collide_double_momentum [OF assms(6,7) assms(8) [unfolded c] assms(9) [unfolded c]]
    by blast
qed

text \<open>
  Claim C3 as amended, at masses 5 and 3, velocities \<open>(62812773, 0)\<close> and
  \<open>(92293005, 0)\<close> and restitution 1.
\<close>

theorem collision_momentum_conserved_witness:
  "fl (Num (mass1_of (spread fast_object1 fast_object2))) = Num 5
   \<and> double_vec (velocity1_of (spread fast_object1 fast_object2))
       = \<lparr> vec_x = Num 62812773, vec_y = Num 0 \<rparr>
   \<and> fl (Num (mass2_of (spread fast_object1 fast_object2))) = Num 3
   \<and> double_vec (velocity2_of (spread fast_object1 fast_object2))
       = \<lparr> vec_x = Num 92293005, vec_y = Num 0 \<rparr>
   \<and> restitution_of (spread fast_object1 fast_object2) = 1
   \<and> 1 / 2 ^ 1022 \<le> (5::real) \<and> 1 / 2 ^ 1022 \<le> (3::real)
   \<and> object1FinalVelocity (calculateCollision_double fast_object1 fast_object2)
       = \<lparr> vec_x = Num 84922947, vec_y = Num 0 \<rparr>
   \<and> object2FinalVelocity (calculateCollision_double fast_object1 fast_object2)
       = \<lparr> vec_x = Num 55442715, vec_y = Num 0 \<rparr>
   \<and> \<bar>((5::real) * 84922947 + 3 * 55442715) - (5 * 62812773 + 3 * 92293005)\<bar>
       \<le> (1 / 2000 + 1 / 10 ^ 14) * (5 + 3)
           + 1 / 10 ^ 14 * (5 * \<bar>62812773\<bar> + 3 * \<bar>92293005\<bar>)"
proof -
  have h: "fl (Num (mass1_of (spread fast_object1 fast_object2))) = Num 5"
    "double_vec (velocity1_of (spread fast_object1 fast_object2))
       = \<lparr> vec_x = Num 62812773, vec_y = Num 0 \<rparr>"
    "fl (Num (mass2_of (spread fast_object1 fast_object2))) = Num 3"
    "double_vec (velocity2_of (spread fast_object1 fast_object2))
       = \<lparr> vec_x = Num 92293005, vec_y = Num 0 \<rparr>"
    "restitution_of (spread fast_object1 fast_object2) = 1"
    by (simp_all add: fast_objects double_vec_def fl_int)
  have b: "1 / 2 ^ 1022 \<le> (5::real)" "1 / 2 ^ 1022 \<le> (3::real)"
    by simp_all
  have e: "fl (Num (restitution_of (spread fast_object1 fast_object2))) = Num 1"
    unfolding h(5) by (rule fl_one)
  note c = calculateCollision_double_collide [OF h(1-4) e]
  have r: "object1FinalVelocity (calculateCollision_double fast_object1 fast_object2)
       = \<lparr> vec_x = Num 84922947, vec_y = Num 0 \<rparr>"
    "object2FinalVelocity (calculateCollision_double fast_object1 fast_object2)
       = \<lparr> vec_x = Num 55442715, vec_y = Num 0 \<rparr>"
    unfolding c
    by (simp_all add: collide_double_def Let_def fast_velocities parseFloat_toFixed_double_def
          parseFloat_toFixed_def round_half_away_def fl_int)
  from collision_momentum_conserved [OF h b r] h b r
  show ?thesis by simp
qed


subsection \<open>The energy loss\<close>





subsection \<open>The energy loss in double arithmetic\<close>








text \<open>
  Claim C10. \<^verbatim>\<open>calculateCollision\<close> runs the collision on the properties of the merged
  object: each property is taken from \<open>obj2\<close> when \<open>obj2\<close> has it, else from \<open>obj1\<close>,
  else it is the default (masses 1, velocities \<open>(10, 0)\<close> and \<open>(-5, 0)\<close>, restitution
  0.8); so two pairs of arguments with the same merged object give the same result.
\<close>
theorem collision_merged_record:
  "calculateCollision obj1 obj2 =
     collide
       (Num (case co_mass1 obj2 of Some v \<Rightarrow> v
             | None \<Rightarrow> (case co_mass1 obj1 of Some v \<Rightarrow> v | None \<Rightarrow> 1)))
       (num_vec (case co_velocity1 obj2 of Some v \<Rightarrow> v
                 | None \<Rightarrow> (case co_velocity1 obj1 of Some v \<Rightarrow> v
                             | None \<Rightarrow> \<lparr> vec_x = 10, vec_y = 0 \<rparr>)))
       (Num (case co_mass2 obj2 of Some v \<Rightarrow> v
             | None \<Rightarrow> (case co_mass2 obj1 of Some v \<Rightarrow> v | None \<Rightarrow> 1)))
       (num_vec (case co_velocity2 obj2 of Some v \<Rightarrow> v
                 | None \<Rightarrow> (case co_velocity2 obj1 of Some v \<Rightarrow> v
                             | None \<Rightarrow> \<lparr> vec_x = - 5, vec_y = 0 \<rparr>)))
       (Num (case co_restitution obj2 of Some v \<Rightarrow> v
             | None \<Rightarrow> (case co_restitution obj1 of Some v \<Rightarrow> v | None \<Rightarrow> 0.8)))
   \<and> (spread obj1 obj2 = spread obj1' obj2'
        \<longrightarrow> calculateCollision obj1 obj2 = calculateCollision obj1' obj2')"
  by (simp add: calculateCollision_def Let_def dest_defs split: option.splits)

text \<open>Claim C10, at two pairs of objects that merge to the same object: the mass 2 of the first object is overridden by the mass 3 of the second.\<close>

theorem collision_merged_record_witness:
  "spread (no_properties \<lparr> co_mass1 := Some 2 \<rparr>) (no_properties \<lparr> co_mass1 := Some 3 \<rparr>)
     = spread no_properties (no_properties \<lparr> co_mass1 := Some 3 \<rparr>)
   \<and> calculateCollision (no_properties \<lparr> co_mass1 := Some 2 \<rparr>) (no_properties \<lparr> co_mass1 := Some 3 \<rparr>)
     = calculateCollision no_properties (no_properties \<lparr> co_mass1 := Some 3 \<rparr>)"
proof -
  have h: "spread (no_properties \<lparr> co_mass1 := Some 2 \<rparr>) (no_properties \<lparr> co_mass1 := Some 3 \<rparr>)
           = spread no_properties (no_properties \<lparr> co_mass1 := Some 3 \<rparr>)"
    by (simp add: spread_def over_def no_properties_def)
  from h collision_merged_record [of "no_properties \<lparr> co_mass1 := Some 2 \<rparr>"
      "no_properties \<lparr> co_mass1 := Some 3 \<rparr>" no_properties "no_properties \<lparr> co_mass1 := Some 3 \<rparr>"]
  show ?thesis by blast
qed


section \<open>Properties of the material lookup and of the forces\<close>

lemma map_of_MATERIALS_Some:
  "map_of MATERIALS name = Some m \<Longrightarrow>
     0 < mass m \<and> 0 < radius m \<and> 0 < dragCoeff m \<and> 0 < bounciness m \<and> bounciness m \<le> 1"
  by (auto simp: MATERIALS_def MATERIALS_custom_def split: if_splits)

lemma lookupMaterial_catalog:
  "map_of MATERIALS name = Some m \<Longrightarrow> lookupMaterial name = Props m"
  by (simp add: lookupMaterial_def MATERIALS_get_def)

lemma lookupMaterial_fallback:
  "map_of MATERIALS name = None \<Longrightarrow> name \<notin> set Object_prototype \<Longrightarrow>
     lookupMaterial name = Props MATERIALS_custom"
  by (simp add: lookupMaterial_def MATERIALS_get_def)

lemma lookupMaterial_cases:
  "(\<exists>m. lookupMaterial name = Props m \<and> 0 < mass m \<and> 0 < radius m \<and> 0 < dragCoeff m
          \<and> 0 < bounciness m \<and> bounciness m \<le> 1)
   \<or> (\<exists>n. lookupMaterial name = Inherited n)"
proof (cases "map_of MATERIALS name")
  case None
  then show ?thesis
    by (cases "name \<in> set Object_prototype")
       (simp_all add: lookupMaterial_def MATERIALS_get_def MATERIALS_custom_def)
next
  case (Some m)
  then show ?thesis
    using map_of_MATERIALS_Some [OF Some] by (simp add: lookupMaterial_catalog)
qed

text \<open>
  Claim C7 says that a name that is not in the catalog gives the \<open>custom\<close> entry. The
  catalog has no entry \<open>constructor\<close>, and the lookup of that name gives the inherited
  property of \<^verbatim>\<open>Object.prototype\<close>, which is not the \<open>custom\<close> entry and whose mass is
  not a number.
\<close>

theorem lookupMaterial_inherited_property:
  "map_of MATERIALS ''constructor'' = None
   \<and> lookupMaterial ''constructor'' = Inherited ''constructor''
   \<and> lookupMaterial ''constructor'' \<noteq> Props MATERIALS_custom
   \<and> prop_mass (lookupMaterial ''constructor'') = NaN"
  by (simp add: lookupMaterial_def MATERIALS_get_def MATERIALS_def Object_prototype_def prop_mass_def)

text \<open>
  Claim C2 says that the gravity vector is \<open>(0, - mass * g)\<close> for the \<open>mass\<close> of the
  parameters. For the request of the README, with mass 2 and material \<open>rock\<close>, the
  gravity vector is \<open>(0, - 4.905)\<close>, from the mass 0.5 of the material, not
  \<open>(0, - 19.62)\<close>; and the gravity vector is the same for every \<open>mass\<close> parameter.
\<close>

theorem calculateForces_gravity_ignores_mass:
  "vector (f_gravity (calculateForces readme_forces_request)) = \<lparr> vec_x = Num 0, vec_y = Num (- 4.905) \<rparr>
   \<and> fp_mass readme_forces_request = Some 2
   \<and> vector (f_gravity (calculateForces readme_forces_request))
       \<noteq> \<lparr> vec_x = Num 0, vec_y = Num (- (2 * GRAVITY)) \<rparr>
   \<and> vector (f_gravity (calculateForces (params \<lparr> fp_mass := m \<rparr>)))
       = vector (f_gravity (calculateForces params))"
  by (simp add: calculateForces_def Let_def readme_forces_request_def default_to_def
        lookupMaterial_def MATERIALS_get_def MATERIALS_def prop_mass_def GRAVITY_def)


section \<open>Properties of trajectories\<close>

lemma nat_pred: "1 \<le> (c::int) \<Longrightarrow> nat (c - 1) + 1 = nat c"
  by simp

lemma trajectory_loop_nonempty:
  "Num 0 \<le> fst (snd s) \<Longrightarrow> trajectory_loop obj airDensity gravity windX windY s t \<noteq> []"
  by (subst trajectory_loop.simps) (simp add: Let_def)

lemma trajectory_loop_length:
  "length (trajectory_loop obj airDensity gravity windX windY s t) \<le> nat \<lceil>(300 - t) * 100\<rceil> + 1"
proof (induction obj airDensity gravity windX windY s t rule: trajectory_loop.induct)
  case (1 obj airDensity gravity windX windY s t)
  show ?case
  proof (cases "Num 0 \<le> fst (snd s)")
    case False
    then show ?thesis by (subst trajectory_loop.simps) simp
  next
    case True
    show ?thesis
    proof (cases "300 < t + dt")
      case True
      with \<open>Num 0 \<le> fst (snd s)\<close> show ?thesis
        by (subst trajectory_loop.simps) (simp add: Let_def)
    next
      case False
      then have le: "1 \<le> (300 - t) * 100" by (simp add: dt_def)
      have "(300 - (t + dt)) * 100 = (300 - t) * 100 - 1"
        by (simp add: dt_def algebra_simps)
      then have e: "\<lceil>(300 - (t + dt)) * 100\<rceil> = \<lceil>(300 - t) * 100\<rceil> - 1"
        by (simp only: ceiling_diff_one)
      from le have "1 \<le> \<lceil>(300 - t) * 100\<rceil>"
        by (simp add: le_ceiling_iff)
      then have n: "nat \<lceil>(300 - (t + dt)) * 100\<rceil> + 1 = nat \<lceil>(300 - t) * 100\<rceil>"
        unfolding e by (rule nat_pred)
      from "1.IH" [OF True refl False]
      have "length (trajectory_loop obj airDensity gravity windX windY
                     (step obj airDensity gravity windX windY s) (t + dt))
            \<le> nat \<lceil>(300 - (t + dt)) * 100\<rceil> + 1" .
      with n True False show ?thesis
        by (subst trajectory_loop.simps) (simp add: Let_def)
    qed
  qed
qed

lemma parseFloat_toFixed_time: "0 \<le> t \<Longrightarrow> t \<le> 300 \<Longrightarrow> parseFloat_toFixed (Num t) 3 \<le> Num 300"
proof -
  assume t: "0 \<le> t" "t \<le> 300"
  have "\<lfloor>t * 1000 + 1 / 2\<rfloor> \<le> 300000"
    using t by (simp add: floor_le_iff)
  then have "of_int \<lfloor>t * 1000 + 1 / 2\<rfloor> \<le> (300000 :: real)"
    by linarith
  then have "sgn t * of_int \<lfloor>\<bar>t\<bar> * 1000 + 1 / 2\<rfloor> / 1000 \<le> 300"
    using t by (cases "t = 0") (simp_all add: sgn_real_def)
  with t show ?thesis
    by (simp add: parseFloat_toFixed_def round_half_away_def)
qed

lemma trajectory_loop_times:
  "0 \<le> t \<Longrightarrow> t \<le> 300 \<Longrightarrow> p \<in> set (trajectory_loop obj airDensity gravity windX windY s t) \<Longrightarrow>
     pt_time p \<le> Num 300"
proof (induction obj airDensity gravity windX windY s t rule: trajectory_loop.induct)
  case (1 obj airDensity gravity windX windY s t)
  from "1.prems"(3) have y: "Num 0 \<le> fst (snd s)"
    by (subst (asm) trajectory_loop.simps) (simp split: if_splits)
  let ?s' = "step obj airDensity gravity windX windY s"
  from "1.prems"(3) y have
    "p = point_at t ?s' \<or>
     (\<not> 300 < t + dt \<and> p \<in> set (trajectory_loop obj airDensity gravity windX windY ?s' (t + dt)))"
    by (subst (asm) trajectory_loop.simps) (simp add: Let_def split: if_splits)
  then show ?case
  proof
    assume "p = point_at t ?s'"
    then show ?thesis
      using "1.prems"(1,2) by (simp add: point_at_def parseFloat_toFixed_time split: prod.splits)
  next
    assume a: "\<not> 300 < t + dt \<and> p \<in> set (trajectory_loop obj airDensity gravity windX windY ?s' (t + dt))"
    then have "0 \<le> t + dt" "t + dt \<le> 300"
      using "1.prems"(1) by (simp_all add: dt_def)
    with a "1.IH" [OF y refl] show ?thesis by blast
  qed
qed

lemma calculateTrajectory_loop:
  "\<exists>obj airDensity gravity windX windY vx vy.
     calculateTrajectory params =
       trajectory_loop obj airDensity gravity windX windY
         (Num 0, Num (default_to 0 (tp_initialHeight params)), vx, vy) 0"
  unfolding calculateTrajectory_def Let_def by blast

lemma calculateTrajectory_nonempty:
  "0 \<le> default_to 0 (tp_initialHeight params) \<Longrightarrow> calculateTrajectory params \<noteq> []"
  unfolding calculateTrajectory_def Let_def by (rule trajectory_loop_nonempty) simp

lemma valid_default_params: "valid_params default_params"
  by (simp add: valid_params_def default_params_def default_to_def AIR_DENSITY_def GRAVITY_def)

text \<open>
  Claim C8. When the initial height is not negative, and so in particular when the
  parameters satisfy their constraints, the trajectory has at least one sample.
\<close>
theorem trajectory_nonempty:
  "(0 \<le> default_to 0 (tp_initialHeight params) \<longrightarrow> calculateTrajectory params \<noteq> [])
   \<and> (valid_params params \<longrightarrow> calculateTrajectory params \<noteq> [])"
  by (simp add: calculateTrajectory_nonempty valid_params_def)

text \<open>Claim C8, at the default parameters.\<close>

theorem trajectory_nonempty_witness:
  "valid_params default_params \<and> calculateTrajectory default_params \<noteq> []"
  using trajectory_nonempty [of default_params] valid_default_params by simp

text \<open>
  Claim C1, amended. \<^verbatim>\<open>calculateTrajectory\<close> is a total function; for every parameter
  set it returns at most 30001 samples, and the time of every sample, the final one
  included, is at most 300.
\<close>
theorem trajectory_terminates_within_cutoff:
  "length (calculateTrajectory params) \<le> 30001
   \<and> (\<forall>p \<in> set (calculateTrajectory params). pt_time p \<le> Num 300)
   \<and> (calculateTrajectory params \<noteq> [] \<longrightarrow> pt_time (last (calculateTrajectory params)) \<le> Num 300)"
proof -
  obtain obj airDensity gravity windX windY vx vy where
    c: "calculateTrajectory params =
          trajectory_loop obj airDensity gravity windX windY
            (Num 0, Num (default_to 0 (tp_initialHeight params)), vx, vy) 0"
    using calculateTrajectory_loop by blast
  have "length (calculateTrajectory params) \<le> nat \<lceil>(300 - 0) * 100 :: real\<rceil> + 1"
    unfolding c by (rule trajectory_loop_length)
  then have l: "length (calculateTrajectory params) \<le> 30001"
    by simp
  have t: "\<forall>p \<in> set (calculateTrajectory params). pt_time p \<le> Num 300"
    unfolding c by (auto intro: trajectory_loop_times)
  then have "calculateTrajectory params \<noteq> [] \<longrightarrow> pt_time (last (calculateTrajectory params)) \<le> Num 300"
    by simp
  with l t show ?thesis by blast
qed

text \<open>Claim C1 as amended, at the default parameters.\<close>

theorem trajectory_terminates_within_cutoff_witness:
  "calculateTrajectory default_params \<noteq> []
   \<and> pt_time (last (calculateTrajectory default_params)) \<le> Num 300"
  using trajectory_terminates_within_cutoff [of default_params]
    calculateTrajectory_nonempty [of default_params]
  by (simp add: default_params_def default_to_def)

lemma positive_not_zero: "Num 0 < a \<Longrightarrow> a \<noteq> Num 0"
  by (cases a) auto

lemma checked_div_Some: "b \<noteq> Num 0 \<Longrightarrow> checked_div a b = Some (a / b)"
  by (simp add: checked_div_def)

lemma prop_mass_lookup: "prop_mass (lookupMaterial name) \<noteq> Num 0"
  using lookupMaterial_cases [of name] by (auto simp: prop_mass_def)

lemma contactTime_lookup: "prop_bounciness (lookupMaterial name) * Num 0.01 \<noteq> Num 0"
  using lookupMaterial_cases [of name] by (auto simp: prop_bounciness_def)

lemma step_checked_step:
  "prop_mass obj \<noteq> Num 0 \<Longrightarrow>
     step_checked obj airDensity gravity windX windY s = Some (step obj airDensity gravity windX windY s)"
  by (cases s) (simp add: step_checked_def step_def Let_def checked_div_Some positive_not_zero)

lemma trajectory_loop_checked_loop:
  "prop_mass obj \<noteq> Num 0 \<Longrightarrow>
     trajectory_loop_checked obj airDensity gravity windX windY s t =
       Some (trajectory_loop obj airDensity gravity windX windY s t)"
proof (induction obj airDensity gravity windX windY s t rule: trajectory_loop.induct)
  case (1 obj airDensity gravity windX windY s t)
  show ?case
  proof (cases "Num 0 \<le> fst (snd s)")
    case False
    then show ?thesis
      by (subst trajectory_loop_checked.simps, subst trajectory_loop.simps) simp
  next
    case True
    show ?thesis
    proof (cases "300 < t + dt")
      case True
      with \<open>Num 0 \<le> fst (snd s)\<close> "1.prems" show ?thesis
        by (subst trajectory_loop_checked.simps, subst trajectory_loop.simps)
           (simp add: step_checked_step Let_def)
    next
      case False
      from "1.IH" [OF True refl False "1.prems"] True False "1.prems" show ?thesis
        by (subst trajectory_loop_checked.simps, subst trajectory_loop.simps)
           (simp add: step_checked_step Let_def)
    qed
  qed
qed

lemma calculateTrajectory_checked_eq:
  "calculateTrajectory_checked params = Some (calculateTrajectory params)"
  by (simp add: calculateTrajectory_checked_def calculateTrajectory_def Let_def
        checked_div_Some trajectory_loop_checked_loop prop_mass_lookup)

lemma airResistance_of_checked_eq:
  "airResistance_of_checked obj velocity = Some (airResistance_of obj velocity)"
  by (simp add: airResistance_of_checked_def airResistance_of_def Let_def checked_div_Some
        positive_not_zero)

lemma calculateForces_checked_eq:
  "calculateForces_checked params = Some (calculateForces params)"
  by (simp add: calculateForces_checked_def calculateForces_def Let_def checked_div_Some
        airResistance_of_checked_eq)

lemma calculateImpact_checked_eq:
  "calculateImpact_checked finalVelocity material_arg impactSurface_arg =
     Some (calculateImpact finalVelocity material_arg impactSurface_arg)"
  using contactTime_lookup [of "default_to ''basketball'' material_arg"]
  by (simp add: calculateImpact_checked_def calculateImpact_def Let_def checked_div_Some Math_PI_def)

lemma collide_checked_eq:
  "m1 + m2 \<noteq> 0 \<Longrightarrow>
     collide_checked (Num m1) u1 (Num m2) u2 e = Some (collide (Num m1) u1 (Num m2) u2 e)"
  by (simp add: collide_checked_def collide_def v1Final_checked_def v2Final_checked_def
        v1Final_def v2Final_def Let_def checked_div_Some)

lemma calculateCollision_checked_eq:
  "0 < mass1_of (spread obj1 obj2) \<Longrightarrow> 0 < mass2_of (spread obj1 obj2) \<Longrightarrow>
     calculateCollision_checked obj1 obj2 = Some (calculateCollision obj1 obj2)"
  by (simp add: calculateCollision_checked_def calculateCollision_def Let_def collide_checked_eq)

lemma step_at_rest_in_air:
  "step obj airDensity gravity (Num wx) (Num wy) (x, y, Num wx, Num wy) =
     (x + Num wx * Num dt, y + (Num wy + (- gravity + Num 0) * Num dt) * Num dt,
      Num wx, Num wy + (- gravity + Num 0) * Num dt)"
  by (simp add: step_def Let_def)

lemma airResistance_at_rest:
  "vector (airResistance_of obj \<lparr> vec_x = Num 0, vec_y = Num 0 \<rparr>) = \<lparr> vec_x = Num 0, vec_y = Num 0 \<rparr>"
  by (simp add: airResistance_of_def Let_def)

text \<open>
  Claim C6. No division of \<^verbatim>\<open>calculateTrajectory\<close>, \<^verbatim>\<open>calculateForces\<close> and
  \<^verbatim>\<open>calculateImpact\<close> has the divisor zero, for any input, and none of
  \<^verbatim>\<open>calculateCollision\<close> for positive masses: the functions with checked divisions
  return the results of the functions themselves. When the speed relative to the air is
  zero the step applies no drag, the drag vector of the forces is zero at speed zero, and
  the contact time of an impact is not zero for any material name.
\<close>
theorem no_division_by_zero:
  "calculateTrajectory_checked params = Some (calculateTrajectory params)
   \<and> calculateForces_checked fparams = Some (calculateForces fparams)
   \<and> calculateImpact_checked finalVelocity material_arg impactSurface_arg =
       Some (calculateImpact finalVelocity material_arg impactSurface_arg)
   \<and> (0 < mass1_of (spread obj1 obj2) \<and> 0 < mass2_of (spread obj1 obj2) \<longrightarrow>
        calculateCollision_checked obj1 obj2 = Some (calculateCollision obj1 obj2))
   \<and> step obj airDensity gravity (Num wx) (Num wy) (x, y, Num wx, Num wy) =
       (x + Num wx * Num dt, y + (Num wy + (- gravity + Num 0) * Num dt) * Num dt,
        Num wx, Num wy + (- gravity + Num 0) * Num dt)
   \<and> vector (airResistance_of obj \<lparr> vec_x = Num 0, vec_y = Num 0 \<rparr>) = \<lparr> vec_x = Num 0, vec_y = Num 0 \<rparr>
   \<and> prop_bounciness (lookupMaterial name) * Num 0.01 \<noteq> Num 0"
  by (intro conjI impI calculateTrajectory_checked_eq calculateForces_checked_eq
        calculateImpact_checked_eq step_at_rest_in_air airResistance_at_rest contactTime_lookup)
     (simp add: calculateCollision_checked_eq)

text \<open>Claim C6, at the collision of the momentum test.\<close>

theorem no_division_by_zero_witness:
  "0 < mass1_of (spread test_object1 test_object2) \<and> 0 < mass2_of (spread test_object1 test_object2)
   \<and> calculateCollision_checked test_object1 test_object2 =
       Some (calculateCollision test_object1 test_object2)"
  using no_division_by_zero [of _ _ _ _ _ test_object1 test_object2] test_objects by simp


section \<open>The step on reals, and a fall of 300 seconds\<close>

lemma step_Props:
  assumes "mass mat \<noteq> 0"
  shows "step (Props mat) (Num rho) (Num g) (Num wx) (Num wy) (num_state s) =
           num_state (euler_step (drag_factor mat rho) g wx wy s)"
proof -
  obtain x y vx vy where s: "s = (x, y, vx, vy)"
    by (cases s) auto
  define r where "r = sqrt ((vx - wx) * (vx - wx) + (vy - wy) * (vy - wy))"
  have r0: "0 \<le> r"
    by (simp add: r_def sum_squares_ge_zero)
  have sq: "Math_sqrt (Num ((vx - wx) * (vx - wx) + (vy - wy) * (vy - wy))) = Num r"
    by (simp add: r_def sum_squares_ge_zero)
  show ?thesis
  proof (cases "r = 0")
    case True
    then have "(vx - wx) * (vx - wx) + (vy - wy) * (vy - wy) = 0"
      by (simp add: r_def sum_squares_ge_zero)
    then have z: "vx - wx = 0" "vy - wy = 0"
      by (simp_all add: sum_squares_eq_zero_iff)
    show ?thesis
      unfolding s step_def num_state_def euler_step_def Let_def prod.case Num_minus Num_times
        Num_plus sq
      unfolding r_def [symmetric] True z
      by simp
  next
    case False
    with r0 have "0 < r" by simp
    show ?thesis
      unfolding s step_def num_state_def euler_step_def Let_def prod.case Num_minus Num_times
        Num_plus sq
      unfolding r_def [symmetric]
      using assms \<open>0 < r\<close>
      by (simp add: prop_mass_def prop_radius_def prop_dragCoeff_def Math_PI_def drag_factor_def
            field_simps)
  qed
qed

lemma trajectory_loop_Props:
  assumes "mass mat \<noteq> 0"
  shows "trajectory_loop (Props mat) (Num rho) (Num g) (Num wx) (Num wy) (num_state s) t =
           (if 0 \<le> fst (snd s) then
              point_at t (num_state (euler_step (drag_factor mat rho) g wx wy s)) #
                (if 300 < t + dt then []
                 else trajectory_loop (Props mat) (Num rho) (Num g) (Num wx) (Num wy)
                        (num_state (euler_step (drag_factor mat rho) g wx wy s)) (t + dt))
            else [])"
proof -
  have y: "Num 0 \<le> fst (snd (num_state s)) \<longleftrightarrow> 0 \<le> fst (snd s)"
    by (cases s) (simp add: num_state_def)
  show ?thesis
    by (subst trajectory_loop.simps) (simp only: y step_Props [OF assms] Let_def)
qed

lemma fall_step:
  assumes "v \<le> 0"
  shows "euler_step c g 0 0 (0, y, 0, v) =
           (0, y + (v + (c * v * v - g) * dt) * dt, 0, v + (c * v * v - g) * dt)"
proof -
  have "sqrt (v * v) = - v"
    using assms by simp
  then show ?thesis
    by (simp add: euler_step_def Let_def algebra_simps)
qed

lemma fall_speed_invariant:
  fixes c g V v :: real
  assumes c: "0 \<le> c" and g: "0 < g" and V: "0 < V" "g \<le> c * V * V" "c * dt * V \<le> 1 / 2"
    and v: "- V \<le> v" "v < 0"
  shows "- V \<le> v + (c * v * v - g) * dt" and "v + (c * v * v - g) * dt < 0"
proof -
  have dt: "0 < dt" by (simp add: dt_def)
  have cdt: "0 \<le> c * dt" using c dt by simp
  have "c * dt * (v - V) \<ge> c * dt * (- 2 * V)"
    using cdt v(1) by (intro mult_left_mono) simp_all
  then have a: "0 \<le> 1 + c * dt * (v - V)"
    using V(3) by (simp add: algebra_simps)
  have p1: "0 \<le> (v + V) * (1 + c * dt * (v - V))"
    using a v(1) by (intro mult_nonneg_nonneg) simp_all
  have p2: "0 \<le> (c * V * V - g) * dt"
    using V(2) dt by (intro mult_nonneg_nonneg) simp_all
  from p1 p2 have "0 \<le> (v + V) * (1 + c * dt * (v - V)) + (c * V * V - g) * dt"
    by simp
  also have "\<dots> = (v + (c * v * v - g) * dt) + V"
    by (simp add: algebra_simps)
  finally show "- V \<le> v + (c * v * v - g) * dt"
    by simp
  have "c * dt * v \<ge> c * dt * (- V)"
    using cdt v(1) by (intro mult_left_mono) simp_all
  then have "0 < 1 + c * dt * v"
    using V(3) by (simp add: algebra_simps)
  then have "v * (1 + c * dt * v) < 0"
    using v(2) by (simp add: mult_less_0_iff)
  moreover have "0 < g * dt" using g dt by simp
  ultimately have "v * (1 + c * dt * v) - g * dt < 0" by simp
  also have "v * (1 + c * dt * v) - g * dt = v + (c * v * v - g) * dt"
    by (simp add: algebra_simps)
  finally show "v + (c * v * v - g) * dt < 0" .
qed

lemma long_fall_time:
  assumes "k + Suc n = 30000"
  shows "real k / 100 + dt = real (Suc k) / 100" and "\<not> 300 < real k / 100 + dt"
proof -
  show "real k / 100 + dt = real (Suc k) / 100"
    by (simp add: dt_def add_divide_distrib)
  from assms have "real k + 1 \<le> 30000"
    by linarith
  then show "\<not> 300 < real k / 100 + dt"
    by (simp add: dt_def)
qed

lemma long_fall_height:
  fixes V y v' :: real
  assumes "V * dt * (real (Suc n) + 1) \<le> y" "- V \<le> v'" "0 < V"
  shows "V * dt * (real n + 1) \<le> y + v' * dt" and "0 \<le> y"
proof -
  have dt: "0 < dt" by (simp add: dt_def)
  have e: "V * dt * (real (Suc n) + 1) = V * dt * (real n + 1) + V * dt"
    by (simp add: algebra_simps)
  have "(- V) * dt \<le> v' * dt"
    using assms(2) dt by (intro mult_right_mono) simp_all
  then have "- (V * dt) \<le> v' * dt"
    by simp
  with assms(1) e show "V * dt * (real n + 1) \<le> y + v' * dt"
    by linarith
  have "0 \<le> V * dt * (real (Suc n) + 1)"
    using assms(3) dt by (intro mult_nonneg_nonneg) simp_all
  with assms(1) show "0 \<le> y"
    by linarith
qed

lemma long_fall_length:
  fixes c g V :: real
  assumes mat: "mass mat \<noteq> 0" "drag_factor mat rho = c"
    and c: "0 \<le> c" and g: "0 < g" and V: "0 < V" "g \<le> c * V * V" "c * dt * V \<le> 1 / 2"
  shows "k + n = 30000 \<Longrightarrow> - V \<le> v \<Longrightarrow> v < 0 \<Longrightarrow> V * dt * (real n + 1) \<le> y \<Longrightarrow>
         length (trajectory_loop (Props mat) (Num rho) (Num g) (Num 0) (Num 0)
                   (num_state (0, y, 0, v)) (real k / 100)) = n + 1"
proof (induction n arbitrary: k y v)
  case 0
  then have k: "real k / 100 = 300" by simp
  have "0 \<le> V * dt * (real 0 + 1)"
    using V(1) by (simp add: dt_def)
  with "0.prems"(4) have y0: "0 \<le> y" by linarith
  have "300 < (300::real) + dt" by (simp add: dt_def)
  with y0 show ?case
    by (subst trajectory_loop_Props [OF mat(1)]) (simp add: k)
next
  case (Suc n)
  let ?v' = "v + (c * v * v - g) * dt"
  let ?y' = "y + ?v' * dt"
  note k = long_fall_time [OF Suc.prems(1)]
  have inv: "- V \<le> ?v'" "?v' < 0"
    using fall_speed_invariant [OF c g V Suc.prems(2,3)] by simp_all
  note h = long_fall_height [OF Suc.prems(4) inv(1) V(1)]
  have st: "euler_step (drag_factor mat rho) g 0 0 (0, y, 0, v) = (0, ?y', 0, ?v')"
    unfolding mat(2) using Suc.prems(3) by (intro fall_step) simp
  have "Suc k + n = 30000" using Suc.prems(1) by simp
  from Suc.IH [OF this inv h(1)]
  have l: "length (trajectory_loop (Props mat) (Num rho) (Num g) (Num 0) (Num 0)
                  (num_state (0, ?y', 0, ?v')) (real (Suc k) / 100)) = n + 1" .
  have "trajectory_loop (Props mat) (Num rho) (Num g) (Num 0) (Num 0)
                   (num_state (0, y, 0, v)) (real k / 100)
        = point_at (real k / 100) (num_state (0, ?y', 0, ?v')) #
            trajectory_loop (Props mat) (Num rho) (Num g) (Num 0) (Num 0)
              (num_state (0, ?y', 0, ?v')) (real (Suc k) / 100)"
    using h(2) k(2)
    by (subst trajectory_loop_Props [OF mat(1)]) (simp only: st k(1) fst_conv snd_conv if_True if_False)
  then show ?case
    using l by simp
qed

lemma lookupMaterial_basketball: "lookupMaterial ''basketball'' = Props basketball"
  by (simp add: lookupMaterial_def MATERIALS_get_def MATERIALS_def basketball_def)

lemma drag_factor_basketball:
  "drag_factor basketball AIR_DENSITY = 0.5 * 0.47 * 1.225 * (pi * 0.1194 * 0.1194) / 0.624"
  by (simp add: drag_factor_def basketball_def AIR_DENSITY_def)

lemma drag_factor_basketball_bounds:
  "0.0131 \<le> drag_factor basketball AIR_DENSITY" "drag_factor basketball AIR_DENSITY \<le> 0.0264"
  unfolding drag_factor_basketball using pi_ge_two pi_less_4 by simp_all

lemma valid_long_fall_params: "valid_params long_fall_params"
  by (simp add: valid_params_def long_fall_params_def default_params_def default_to_def
        AIR_DENSITY_def GRAVITY_def)

lemma calculateTrajectory_long_fall:
  "calculateTrajectory long_fall_params =
     trajectory_loop (Props basketball) (Num AIR_DENSITY) (Num GRAVITY) (Num 0) (Num 0)
       (num_state (0, 10000, 0, - 10)) (real 0 / 100)"
  by (simp add: calculateTrajectory_def Let_def long_fall_params_def default_params_def
        default_to_def lookupMaterial_basketball Math_PI_def num_state_def)

text \<open>
  Claim C1 bounds the number of samples by 30000. A basketball thrown straight down from
  10 km, a valid parameter set, is still above the ground after 300 seconds, and its
  trajectory has 30001 samples: the sample of time 300 is produced before the loop stops
  on \<open>t > 300\<close>.
\<close>

theorem trajectory_length_counterexample:
  "valid_params long_fall_params
   \<and> length (calculateTrajectory long_fall_params) = 30001
   \<and> \<not> length (calculateTrajectory long_fall_params) \<le> 30000"
proof -
  let ?c = "drag_factor basketball AIR_DENSITY"
  note b = drag_factor_basketball_bounds
  have c0: "0 \<le> ?c" using b(1) by simp
  have g: "0 < GRAVITY" by (simp add: GRAVITY_def)
  have "GRAVITY \<le> 0.0131 * 30 * 30" by (simp add: GRAVITY_def)
  also have "\<dots> \<le> ?c * 30 * 30" using b(1) by simp
  finally have v1: "GRAVITY \<le> ?c * 30 * 30" .
  have v2: "?c * dt * 30 \<le> 1 / 2" using b(2) by (simp add: dt_def)
  have "length (trajectory_loop (Props basketball) (Num AIR_DENSITY) (Num GRAVITY) (Num 0) (Num 0)
                  (num_state (0, 10000, 0, - 10)) (real 0 / 100)) = 30000 + 1"
    by (rule long_fall_length [OF _ refl c0 g _ v1 v2]) (simp_all add: basketball_def dt_def)
  then have "length (calculateTrajectory long_fall_params) = 30001"
    unfolding calculateTrajectory_long_fall by simp
  then show ?thesis
    using valid_long_fall_params by simp
qed


section \<open>Headwind and range\<close>





















end
